theory Spec2Isabelle
  imports Main
begin

section \<open>JavaScript values\<close>

text \<open>
  The session state of \<^verbatim>\<open>field-detail/store.ts\<close> is a tree of \<^verbatim>\<open>DeepPartial\<close> objects:
  every property may be absent (\<^verbatim>\<open>undefined\<close>) or \<^verbatim>\<open>null\<close>. The leaves are modelled by
  \<open>jsval\<close>; an absent key is \<open>Undefined\<close>. Arrays of strings (\<^verbatim>\<open>special: ['o2m']\<close>) and flat
  option objects (\<^verbatim>\<open>options: { iconLeft: 'vpn_key' }\<close>) are the only compound leaves that
  the store writes.
\<close>

datatype jsval =
    Undefined
  | Null
  | Bool bool
  | Str string
  | StrArr "string list"
  | Dict "(string \<times> string) list"

text \<open>JavaScript truthiness, as used by \<^verbatim>\<open>if (x)\<close>, \<^verbatim>\<open>x && y\<close> and \<^verbatim>\<open>!!x\<close>.\<close>

fun truthy :: "jsval \<Rightarrow> bool" where
  "truthy Undefined = False"
| "truthy Null = False"
| "truthy (Bool b) = b"
| "truthy (Str s) = (s \<noteq> [])"
| "truthy (StrArr xs) = True"
| "truthy (Dict kvs) = True"

fun join_comma :: "string list \<Rightarrow> string" where
  "join_comma [] = []"
| "join_comma [x] = x"
| "join_comma (x # y # ys) = x @ '','' @ join_comma (y # ys)"

text \<open>String conversion of a template literal \<^verbatim>\<open>`${x}`\<close>.\<close>

fun toStr :: "jsval \<Rightarrow> string" where
  "toStr Undefined = ''undefined''"
| "toStr Null = ''null''"
| "toStr (Bool b) = (if b then ''true'' else ''false'')"
| "toStr (Str s) = s"
| "toStr (StrArr xs) = join_comma xs"
| "toStr (Dict kvs) = ''[object Object]''"

text \<open>
  Strict equality \<^verbatim>\<open>===\<close>. Primitives compare by value. Arrays and objects compare by
  identity, which the model does not track: two compound values are taken to be distinct
  allocations.
\<close>

fun strictEq :: "jsval \<Rightarrow> jsval \<Rightarrow> bool" where
  "strictEq (StrArr xs) b = False"
| "strictEq (Dict kvs) b = False"
| "strictEq a b = (a = b)"

subsection \<open>Decimal rendering of a loop index\<close>

text \<open>
  \<^verbatim>\<open>name + '_' + index\<close> renders the number \<^verbatim>\<open>index\<close> in decimal. The index is a
  JavaScript number that starts at 0 and is only incremented; it is modelled as \<open>nat\<close>.
  (A JavaScript number counts exactly up to \<open>2^53\<close>, far beyond the size of a catalog.)
\<close>

definition digit_char :: "nat \<Rightarrow> char" where
  "digit_char d = ''0123456789'' ! d"

function string_of_nat :: "nat \<Rightarrow> string" where
  "string_of_nat n =
     (if n < 10 then [digit_char n] else string_of_nat (n div 10) @ [digit_char (n mod 10)])"
  by pat_completeness auto
termination
  by (relation "measure id") auto

declare string_of_nat.simps [simp del]

text \<open>Reading a decimal numeral back; used only to show that the rendering is injective.\<close>

definition digit_val :: "char \<Rightarrow> nat" where
  "digit_val c = length (takeWhile (\<lambda>d. d \<noteq> c) ''0123456789'')"

definition nat_of_string :: "string \<Rightarrow> nat" where
  "nat_of_string s = foldl (\<lambda>acc c. acc * 10 + digit_val c) 0 s"

section \<open>Store records\<close>

text \<open>
  The shapes of \<^verbatim>\<open>Field\<close>, \<^verbatim>\<open>Relation\<close> and \<^verbatim>\<open>Collection\<close> (imported from
  \<^verbatim>\<open>@/types\<close>), restricted to the keys that \<^verbatim>\<open>store.ts\<close> reads or writes. The transient
  \<^verbatim>\<open>$type\<close> tag is the selector \<open>dollar_type\<close>; the \<^verbatim>\<open>fields\<close> array of a new collection is
  \<open>field_list\<close>. A nested object that may be missing is an \<open>option\<close>.
\<close>

record schema =
  default_value :: jsval
  max_length :: jsval
  is_nullable :: jsval
  is_unique :: jsval
  numeric_precision :: jsval
  numeric_scale :: jsval
  has_auto_increment :: jsval
  is_primary_key :: jsval

record meta =
  hidden :: jsval
  icon :: jsval
  interface :: jsval
  options :: jsval
  display :: jsval
  display_options :: jsval
  readonly :: jsval
  special :: jsval
  "note" :: jsval
  width :: jsval

record field =
  dollar_type :: jsval
  collection :: jsval
  field :: jsval
  type :: jsval
  schema :: "schema option"
  meta :: "meta option"

record relation_meta =
  one_field :: jsval
  sort_field :: jsval
  junction_field :: jsval
  one_allowed_collections :: jsval
  one_collection_field :: jsval

record relation =
  collection :: jsval
  field :: jsval
  related_collection :: jsval
  meta :: "relation_meta option"
  one_field :: jsval
  one_primary :: jsval
  one_collection_field :: jsval
  sort_field :: jsval

record collection =
  dollar_type :: jsval
  collection :: jsval
  meta :: "meta option"
  field_list :: "field list option"

section \<open>The schema catalog\<close>

text \<open>
  \<^verbatim>\<open>collectionsStore\<close>, \<^verbatim>\<open>fieldsStore\<close> and \<^verbatim>\<open>relationsStore\<close> are imported from
  \<^verbatim>\<open>@/stores/\<close>; the store code calls four of their lookups. They are parameters of the
  model: a catalog snapshot is any quadruple of lookup functions. \<open>None\<close> is the \<^verbatim>\<open>null\<close> that
  \<^verbatim>\<open>getCollection\<close> returns for an unknown name (the code tests \<^verbatim>\<open>!== null\<close>), and a
  \<^verbatim>\<open>null\<close> or \<^verbatim>\<open>undefined\<close> result of the two field lookups.
\<close>

record catalog =
  getCollection :: "string \<Rightarrow> collection option"
  getField :: "string \<Rightarrow> string \<Rightarrow> field option"
  getPrimaryKeyFieldForCollection :: "string \<Rightarrow> field option"
  getRelationsForField :: "string \<Rightarrow> string \<Rightarrow> relation list"

text \<open>
  \<^verbatim>\<open>collectionExists\<close> and \<^verbatim>\<open>fieldExists\<close> (lines 955--961). Their arguments come from
  the state and may be \<^verbatim>\<open>undefined\<close> or \<^verbatim>\<open>null\<close>; the stores are keyed by strings, so a
  lookup with any other key finds nothing.
\<close>

definition collectionExists :: "catalog \<Rightarrow> jsval \<Rightarrow> bool" where
  "collectionExists cat c =
     (case c of Str name \<Rightarrow> getCollection cat name \<noteq> None | _ \<Rightarrow> False)"

definition fieldExists :: "catalog \<Rightarrow> jsval \<Rightarrow> jsval \<Rightarrow> bool" where
  "fieldExists cat c f =
     (collectionExists cat c \<and>
      (case (c, f) of (Str cn, Str fn) \<Rightarrow> getField cat cn fn \<noteq> None | _ \<Rightarrow> False))"

section \<open>The junction naming helper\<close>

text \<open>
  \<^verbatim>\<open>getAutomaticJunctionCollectionName\<close> (lines 702--718). The two base names are
  \<^verbatim>\<open>state.relations[0].related_collection\<close> and \<^verbatim>\<open>state.relations[1].related_collection\<close>,
  which do not change while the helper runs; they are the parameters \<open>a\<close> and \<open>b\<close>.
  The \<^verbatim>\<open>while\<close> loop has no bound of its own, so it is a partial function: \<open>None\<close> means
  that the loop does not return.
\<close>

definition getName :: "jsval \<Rightarrow> jsval \<Rightarrow> nat \<Rightarrow> string" where
  "getName a b index =
     (let name = toStr a @ ''_'' @ toStr b
      in if index \<noteq> 0 then name @ ''_'' @ string_of_nat index else name)"

partial_function (option) junctionNameLoop ::
  "catalog \<Rightarrow> jsval \<Rightarrow> jsval \<Rightarrow> nat \<Rightarrow> string \<Rightarrow> string option" where
  "junctionNameLoop cat a b index name =
     (if collectionExists cat (Str name)
      then junctionNameLoop cat a b (index + 1) (getName a b (index + 1))
      else Some name)"

definition getAutomaticJunctionCollectionName :: "catalog \<Rightarrow> jsval \<Rightarrow> jsval \<Rightarrow> string option" where
  "getAutomaticJunctionCollectionName cat a b = junctionNameLoop cat a b 0 (getName a b 0)"

text \<open>
  A concrete catalog snapshot for evaluating the rules: a list of tables, each a collection
  name with its fields as (name, type) pairs, the first field being the primary key, and
  the stored relation records of chosen fields.
\<close>

definition emptyCollection :: collection where
  "emptyCollection =
     \<lparr>collection.dollar_type = Undefined, collection.collection = Undefined,
      collection.meta = None, field_list = None\<rparr>"

definition storedField :: "string \<Rightarrow> string \<times> string \<Rightarrow> field" where
  "storedField c ft =
     \<lparr>field.dollar_type = Undefined, field.collection = Str c, field.field = Str (fst ft),
      field.type = Str (snd ft), field.schema = None, field.meta = None\<rparr>"

definition catalogOfTables ::
  "(string \<times> (string \<times> string) list) list \<Rightarrow> ((string \<times> string) \<times> relation list) list \<Rightarrow> catalog" where
  "catalogOfTables tables stored =
     \<lparr>getCollection = (\<lambda>c. case map_of tables c of
                              None \<Rightarrow> None
                            | Some fs \<Rightarrow> Some (emptyCollection\<lparr>collection.collection := Str c\<rparr>)),
      getField = (\<lambda>c f. case map_of tables c of
                           None \<Rightarrow> None
                         | Some fs \<Rightarrow> (case map_of fs f of
                                        None \<Rightarrow> None
                                      | Some t \<Rightarrow> Some (storedField c (f, t)))),
      getPrimaryKeyFieldForCollection = (\<lambda>c. case map_of tables c of
                                               None \<Rightarrow> None
                                             | Some [] \<Rightarrow> None
                                             | Some (ft # fs) \<Rightarrow> Some (storedField c ft)),
      getRelationsForField = (\<lambda>c f. case map_of stored (c, f) of None \<Rightarrow> [] | Some rs \<Rightarrow> rs)\<rparr>"

section \<open>Session state\<close>

text \<open>
  The module-level \<^verbatim>\<open>state\<close> object (lines 27--35). A seed row (\<^verbatim>\<open>Item\<close>) is a flat
  object of strings; \<^verbatim>\<open>newRows\<close> is an object keyed by collection name, kept as an
  association list in key order.
\<close>

type_synonym item = "(string \<times> string) list"

record store_state =
  fieldData :: field
  relations :: "relation list"
  newCollections :: "collection list"
  newFields :: "field list"
  updateFields :: "field list"
  newRows :: "(string \<times> item list) list"
  autoFillJunctionRelation :: bool

text \<open>
  A property read or write on \<^verbatim>\<open>undefined\<close> or \<^verbatim>\<open>null\<close> throws a \<^verbatim>\<open>TypeError\<close>. A rule
  mutates the state in place, so a rule that throws leaves the writes it made before the
  throw: a rule returns the error, if any, together with the state it left.
\<close>

datatype error = TypeError

text \<open>The object literal \<^verbatim>\<open>{}\<close> at each record type.\<close>

definition emptySchema :: schema where
  "emptySchema =
     \<lparr>default_value = Undefined, max_length = Undefined, is_nullable = Undefined,
      is_unique = Undefined, numeric_precision = Undefined, numeric_scale = Undefined,
      has_auto_increment = Undefined, is_primary_key = Undefined\<rparr>"

definition emptyMeta :: meta where
  "emptyMeta =
     \<lparr>hidden = Undefined, icon = Undefined, interface = Undefined, options = Undefined,
      display = Undefined, display_options = Undefined, readonly = Undefined,
      special = Undefined, note = Undefined, width = Undefined\<rparr>"

definition emptyField :: field where
  "emptyField =
     \<lparr>field.dollar_type = Undefined, field.collection = Undefined, field.field = Undefined,
      field.type = Undefined, field.schema = None, field.meta = None\<rparr>"

definition emptyRelationMeta :: relation_meta where
  "emptyRelationMeta =
     \<lparr>relation_meta.one_field = Undefined, relation_meta.sort_field = Undefined,
      junction_field = Undefined, one_allowed_collections = Undefined,
      relation_meta.one_collection_field = Undefined\<rparr>"

definition emptyRelation :: relation where
  "emptyRelation =
     \<lparr>relation.collection = Undefined, relation.field = Undefined,
      related_collection = Undefined, relation.meta = None,
      relation.one_field = Undefined, one_primary = Undefined,
      relation.one_collection_field = Undefined, relation.sort_field = Undefined\<rparr>"

text \<open>\<^verbatim>\<open>x || {}\<close> for a nested object that may be missing.\<close>

definition orEmptyMeta :: "meta option \<Rightarrow> meta" where
  "orEmptyMeta m = (case m of None \<Rightarrow> emptyMeta | Some x \<Rightarrow> x)"

definition orEmptyRelationMeta :: "relation_meta option \<Rightarrow> relation_meta" where
  "orEmptyRelationMeta m = (case m of None \<Rightarrow> emptyRelationMeta | Some x \<Rightarrow> x)"

text \<open>The state that \<^verbatim>\<open>initLocalStore\<close> starts from (lines 47--77).\<close>

definition initialState :: store_state where
  "initialState =
     \<lparr>fieldData = emptyField
        \<lparr>field.field := Str [],
         field.type := Str ''string'',
         field.schema := Some (emptySchema
           \<lparr>default_value := Undefined, max_length := Undefined, is_nullable := Bool True,
            is_unique := Bool False, numeric_precision := Null, numeric_scale := Null\<rparr>),
         field.meta := Some (emptyMeta
           \<lparr>hidden := Bool False, interface := Undefined, options := Undefined,
            display := Undefined, display_options := Undefined, readonly := Bool False,
            special := Undefined, note := Undefined\<rparr>)\<rparr>,
      relations = [],
      newCollections = [],
      newFields = [],
      updateFields = [],
      newRows = [],
      autoFillJunctionRelation = False\<rparr>"

section \<open>The derived-list rules\<close>

text \<open>
  The three throttled rules \<^verbatim>\<open>syncNewCollectionsO2M\<close>, \<^verbatim>\<open>syncNewCollectionsM2M\<close> and
  \<^verbatim>\<open>syncNewCollectionsM2A\<close>. Each receives the array of its watch sources as argument.
  The object literals they push are named here after their \<^verbatim>\<open>$type\<close> tag.
\<close>

text \<open>\<^verbatim>\<open>fieldsStore.getPrimaryKeyFieldForCollection(c)?.type\<close>, for a name read from the state.\<close>

definition primaryKeyType :: "catalog \<Rightarrow> jsval \<Rightarrow> jsval" where
  "primaryKeyType cat c =
     (case c of
        Str name \<Rightarrow>
          (case getPrimaryKeyFieldForCollection cat name of
             None \<Rightarrow> Undefined
           | Some pk \<Rightarrow> field.type pk)
      | _ \<Rightarrow> Undefined)"

text \<open>Lines 291--307: the related collection proposed by the one-to-many rule.\<close>

definition relatedDraftO2M :: "jsval \<Rightarrow> collection" where
  "relatedDraftO2M collectionName =
     \<lparr>collection.dollar_type = Str ''related'',
      collection.collection = collectionName,
      collection.meta = None,
      field_list = Some
        [emptyField
           \<lparr>field.field := Str ''id'',
            field.type := Str ''integer'',
            field.schema := Some (emptySchema
              \<lparr>has_auto_increment := Bool True, is_primary_key := Bool True\<rparr>),
            field.meta := Some (emptyMeta\<lparr>hidden := Bool True\<rparr>)\<rparr>]\<rparr>"

text \<open>Lines 385--404 and 736--755: the junction collection.\<close>

definition junctionDraft :: "jsval \<Rightarrow> collection" where
  "junctionDraft name =
     \<lparr>collection.dollar_type = Str ''junction'',
      collection.collection = name,
      collection.meta = Some (emptyMeta\<lparr>hidden := Bool True, icon := Str ''import_export''\<rparr>),
      field_list = Some
        [emptyField
           \<lparr>field.field := Str ''id'',
            field.type := Str ''integer'',
            field.schema := Some (emptySchema\<lparr>has_auto_increment := Bool True\<rparr>),
            field.meta := Some (emptyMeta\<lparr>hidden := Bool True\<rparr>)\<rparr>]\<rparr>"

text \<open>Lines 452--486: the related (languages) collection of a translations field.\<close>

definition relatedDraftTranslations :: "jsval \<Rightarrow> collection" where
  "relatedDraftTranslations name =
     \<lparr>collection.dollar_type = Str ''related'',
      collection.collection = name,
      collection.meta = Some (emptyMeta\<lparr>icon := Str ''translate''\<rparr>),
      field_list = Some
        [emptyField
           \<lparr>field.field := Str ''id'',
            field.type := Str ''string'',
            field.schema := Some (emptySchema\<lparr>is_primary_key := Bool True\<rparr>),
            field.meta := Some (emptyMeta
              \<lparr>interface := Str ''input'',
               options := Dict [(''iconLeft'', ''vpn_key'')],
               width := Str ''half''\<rparr>)\<rparr>,
         emptyField
           \<lparr>field.field := Str ''name'',
            field.type := Str ''string'',
            field.schema := Some emptySchema,
            field.meta := Some (emptyMeta
              \<lparr>interface := Str ''input'',
               options := Dict [(''iconLeft'', ''translate'')],
               width := Str ''half''\<rparr>)\<rparr>]\<rparr>"

text \<open>Lines 488--503: the related collection of a plain many-to-many field.\<close>

definition relatedDraftM2M :: "jsval \<Rightarrow> collection" where
  "relatedDraftM2M name =
     \<lparr>collection.dollar_type = Str ''related'',
      collection.collection = name,
      collection.meta = None,
      field_list = Some
        [emptyField
           \<lparr>field.field := Str ''id'',
            field.type := Str ''integer'',
            field.schema := Some (emptySchema\<lparr>has_auto_increment := Bool True\<rparr>),
            field.meta := Some (emptyMeta\<lparr>hidden := Bool True\<rparr>)\<rparr>]\<rparr>"

text \<open>
  A proposed field on the junction (or related) collection: \<^verbatim>\<open>$type\<close>, \<^verbatim>\<open>collection\<close>,
  \<^verbatim>\<open>field\<close>, \<^verbatim>\<open>type\<close>, \<^verbatim>\<open>schema: {}\<close> and \<^verbatim>\<open>meta: { hidden: true }\<close>.
\<close>

definition hiddenField :: "string \<Rightarrow> jsval \<Rightarrow> jsval \<Rightarrow> jsval \<Rightarrow> field" where
  "hiddenField tag c f t =
     \<lparr>field.dollar_type = Str tag, field.collection = c, field.field = f, field.type = t,
      field.schema = Some emptySchema,
      field.meta = Some (emptyMeta\<lparr>hidden := Bool True\<rparr>)\<rparr>"

text \<open>Lines 311--319: the many-side field of the one-to-many rule carries no \<^verbatim>\<open>meta\<close>.\<close>

definition manyRelatedO2M :: "jsval \<Rightarrow> jsval \<Rightarrow> jsval \<Rightarrow> field" where
  "manyRelatedO2M c f t =
     \<lparr>field.dollar_type = Str ''manyRelated'', field.collection = c, field.field = f,
      field.type = t, field.schema = Some emptySchema, field.meta = None\<rparr>"

text \<open>Lines 509--540: the starter rows of a new languages collection.\<close>

definition starterLanguages :: "item list" where
  "starterLanguages =
     [[(''code'', ''en-US''), (''name'', ''English'')],
      [(''code'', ''de-DE''), (''name'', ''German'')],
      [(''code'', ''fr-FR''), (''name'', ''French'')],
      [(''code'', ''ru-RU''), (''name'', ''Russian'')],
      [(''code'', ''es-ES''), (''name'', ''Spanish'')],
      [(''code'', ''it-IT''), (''name'', ''Italian'')],
      [(''code'', ''pt-BR''), (''name'', ''Portuguese'')]]"

definition pushCollection :: "collection \<Rightarrow> store_state \<Rightarrow> store_state" where
  "pushCollection c st = st\<lparr>newCollections := newCollections st @ [c]\<rparr>"

definition pushField :: "field \<Rightarrow> store_state \<Rightarrow> store_state" where
  "pushField f st = st\<lparr>newFields := newFields st @ [f]\<rparr>"

text \<open>\<^verbatim>\<open>syncNewCollectionsO2M\<close>, lines 285--334.\<close>

definition syncNewCollectionsO2M ::
  "catalog \<Rightarrow> jsval \<times> jsval \<times> jsval \<Rightarrow> store_state \<Rightarrow> error option \<times> store_state" where
  "syncNewCollectionsO2M cat args st =
     (case args of (collectionName, fieldName, sortField) \<Rightarrow>
        let st1 = st\<lparr>newCollections :=
                      filter (\<lambda>col. collection.dollar_type col \<notin> set [Str ''related''])
                        (newCollections st)\<rparr>;
            st2 = st1\<lparr>newFields :=
                      filter (\<lambda>f. field.dollar_type f \<notin> set [Str ''manyRelated'', Str ''sort''])
                        (newFields st1)\<rparr>;
            st3 = (if \<not> collectionExists cat collectionName
                   then pushCollection (relatedDraftO2M collectionName) st2 else st2);
            st4 = (if \<not> fieldExists cat collectionName fieldName
                   then pushField
                          (manyRelatedO2M collectionName fieldName
                             (if collectionExists cat collectionName
                              then primaryKeyType cat collectionName else Str ''integer''))
                          st3
                   else st3);
            st5 = (if truthy sortField \<and> \<not> fieldExists cat collectionName sortField
                   then pushField (hiddenField ''sort'' collectionName sortField (Str ''integer'')) st4
                   else st4)
        in (None, st5))"

text \<open>
  \<^verbatim>\<open>syncNewCollectionsM2M\<close>, lines 375--560, in two parts. The non-null assertion
  \<^verbatim>\<open>getPrimaryKeyFieldForCollection(collection)!.type\<close> of line 412 throws when the parent
  collection has no primary key in the catalog; the statements from line 420 on run only
  if it did not throw. The parameters \<^verbatim>\<open>collection\<close> and \<^verbatim>\<open>type\<close> of \<^verbatim>\<open>initLocalStore\<close>, which
  the rules close over, are \<open>parentCollection\<close> and \<open>localType\<close>.
\<close>

definition syncNewCollectionsM2M_from420 ::
  "catalog \<Rightarrow> string \<Rightarrow> jsval \<times> jsval \<times> jsval \<times> jsval \<times> jsval \<Rightarrow> store_state \<Rightarrow> store_state" where
  "syncNewCollectionsM2M_from420 cat localType args st =
     (case args of (junctionCollection, manyCurrent, manyRelated, relatedCollection, sortField) \<Rightarrow>
        let st1 = (if \<not> fieldExists cat junctionCollection manyRelated
                   then (if localType = ''translations''
                         then pushField
                                (hiddenField ''manyRelated'' junctionCollection manyRelated
                                   (if collectionExists cat relatedCollection
                                    then primaryKeyType cat relatedCollection else Str ''string''))
                                st
                         else pushField
                                (hiddenField ''manyRelated'' junctionCollection manyRelated
                                   (if collectionExists cat relatedCollection
                                    then primaryKeyType cat relatedCollection else Str ''integer''))
                                st)
                   else st);
            st2 = (if \<not> collectionExists cat relatedCollection
                   then (if localType = ''translations''
                         then pushCollection (relatedDraftTranslations relatedCollection) st1
                         else pushCollection (relatedDraftM2M relatedCollection) st1)
                   else st1);
            st3 = (if localType = ''translations''
                   then (if \<not> collectionExists cat relatedCollection
                         then st2\<lparr>newRows := [(toStr relatedCollection, starterLanguages)]\<rparr>
                         else st2\<lparr>newRows := []\<rparr>)
                   else st2)
        in (if truthy sortField \<and> \<not> fieldExists cat junctionCollection sortField
            then pushField (hiddenField ''sort'' junctionCollection sortField (Str ''integer'')) st3
            else st3))"

definition syncNewCollectionsM2M ::
  "catalog \<Rightarrow> string \<Rightarrow> string \<Rightarrow> jsval \<times> jsval \<times> jsval \<times> jsval \<times> jsval
     \<Rightarrow> store_state \<Rightarrow> error option \<times> store_state" where
  "syncNewCollectionsM2M cat parentCollection localType args st =
     (case args of (junctionCollection, manyCurrent, manyRelated, relatedCollection, sortField) \<Rightarrow>
        let st1 = st\<lparr>newCollections :=
                      filter (\<lambda>col. collection.dollar_type col \<notin> set [Str ''junction'', Str ''related''])
                        (newCollections st)\<rparr>;
            st2 = st1\<lparr>newFields :=
                      filter (\<lambda>f. field.dollar_type f
                                    \<notin> set [Str ''manyCurrent'', Str ''manyRelated'', Str ''sort''])
                        (newFields st1)\<rparr>;
            st3 = (if \<not> collectionExists cat junctionCollection
                   then pushCollection (junctionDraft junctionCollection) st2 else st2)
        in (if \<not> fieldExists cat junctionCollection manyCurrent
            then (case getPrimaryKeyFieldForCollection cat parentCollection of
                    None \<Rightarrow> (Some TypeError, st3)
                  | Some pk \<Rightarrow>
                      (None, syncNewCollectionsM2M_from420 cat localType args
                               (pushField
                                  (hiddenField ''manyCurrent'' junctionCollection manyCurrent (field.type pk))
                                  st3)))
            else (None, syncNewCollectionsM2M_from420 cat localType args st3)))"

text \<open>\<^verbatim>\<open>syncNewCollectionsM2A\<close>, lines 725--813, split at the same assertion (line 763).\<close>

definition syncNewCollectionsM2A_from771 ::
  "catalog \<Rightarrow> jsval \<times> jsval \<times> jsval \<times> jsval \<times> jsval \<Rightarrow> store_state \<Rightarrow> store_state" where
  "syncNewCollectionsM2A_from771 cat args st =
     (case args of (junctionCollection, manyCurrent, manyRelated, oneCollectionField, sortField) \<Rightarrow>
        let st1 = (if \<not> fieldExists cat junctionCollection manyRelated
                   then pushField (hiddenField ''manyRelated'' junctionCollection manyRelated (Str ''string'')) st
                   else st);
            st2 = (if \<not> fieldExists cat junctionCollection oneCollectionField
                   then pushField
                          (hiddenField ''collectionField'' junctionCollection oneCollectionField (Str ''string''))
                          st1
                   else st1)
        in (if truthy sortField \<and> \<not> fieldExists cat junctionCollection sortField
            then pushField (hiddenField ''sort'' junctionCollection sortField (Str ''integer'')) st2
            else st2))"

definition syncNewCollectionsM2A ::
  "catalog \<Rightarrow> string \<Rightarrow> jsval \<times> jsval \<times> jsval \<times> jsval \<times> jsval
     \<Rightarrow> store_state \<Rightarrow> error option \<times> store_state" where
  "syncNewCollectionsM2A cat parentCollection args st =
     (case args of (junctionCollection, manyCurrent, manyRelated, oneCollectionField, sortField) \<Rightarrow>
        let st1 = st\<lparr>newCollections :=
                      filter (\<lambda>col. collection.dollar_type col \<notin> set [Str ''junction'', Str ''related''])
                        (newCollections st)\<rparr>;
            st2 = st1\<lparr>newFields :=
                      filter (\<lambda>f. field.dollar_type f
                                    \<notin> set [Str ''manyCurrent'', Str ''manyRelated'',
                                           Str ''collectionField'', Str ''sort''])
                        (newFields st1)\<rparr>;
            st3 = (if \<not> collectionExists cat junctionCollection
                   then pushCollection (junctionDraft junctionCollection) st2 else st2)
        in (if \<not> fieldExists cat junctionCollection manyCurrent
            then (case getPrimaryKeyFieldForCollection cat parentCollection of
                    None \<Rightarrow> (Some TypeError, st3)
                  | Some pk \<Rightarrow>
                      (None, syncNewCollectionsM2A_from771 cat args
                               (pushField
                                  (hiddenField ''manyCurrent'' junctionCollection manyCurrent (field.type pk))
                                  st3)))
            else (None, syncNewCollectionsM2A_from771 cat args st3)))"

section \<open>Watcher callbacks\<close>

text \<open>
  Every \<^verbatim>\<open>watch(source, callback)\<close> of a strategy is modelled by its callback, a function
  on the state that runs after the value of its source changed. The callbacks are anonymous
  in the source; they are named here after the strategy and the watched path. The two
  callbacks that call \<^verbatim>\<open>getAutomaticJunctionCollectionName\<close> return \<open>None\<close> when its
  loop does not return.
\<close>

text \<open>Many-to-one, lines 256--266: keep the field type in sync with the related primary key.\<close>

definition m2oTypeRule :: "catalog \<Rightarrow> store_state \<Rightarrow> error option \<times> store_state" where
  "m2oTypeRule cat st =
     (case relations st of
        [] \<Rightarrow> (Some TypeError, st)
      | r0 # rs \<Rightarrow>
          (if truthy (related_collection r0) \<and> collectionExists cat (related_collection r0)
           then (case related_collection r0 of
                   Str name \<Rightarrow>
                     (case getPrimaryKeyFieldForCollection cat name of
                        None \<Rightarrow> (Some TypeError, st)
                      | Some pk \<Rightarrow> (None, st\<lparr>fieldData := (fieldData st)\<lparr>field.type := field.type pk\<rparr>\<rparr>))
                 | _ \<Rightarrow> (Some TypeError, st))
           else (None, st\<lparr>fieldData := (fieldData st)\<lparr>field.type := Str ''integer''\<rparr>\<rparr>)))"

text \<open>Many-to-many, lines 590--598 and 600--608 (and 854--872 of many-to-any).\<close>

definition junctionFieldRule0 :: "store_state \<Rightarrow> error option \<times> store_state" where
  "junctionFieldRule0 st =
     (case relations st of
        r0 # r1 # rs \<Rightarrow>
          (None, st\<lparr>relations :=
             r0 # r1\<lparr>relation.meta := Some ((orEmptyRelationMeta (relation.meta r1))
                                              \<lparr>junction_field := relation.field r0\<rparr>)\<rparr> # rs\<rparr>)
      | _ \<Rightarrow> (Some TypeError, st))"

definition junctionFieldRule1 :: "store_state \<Rightarrow> error option \<times> store_state" where
  "junctionFieldRule1 st =
     (case relations st of
        r0 # r1 # rs \<Rightarrow>
          (None, st\<lparr>relations :=
             r0\<lparr>relation.meta := Some ((orEmptyRelationMeta (relation.meta r0))
                                         \<lparr>junction_field := relation.field r1\<rparr>)\<rparr> # r1 # rs\<rparr>)
      | _ \<Rightarrow> (Some TypeError, st))"

text \<open>Many-to-many, lines 621--642: the rule on \<^verbatim>\<open>state.fieldData.field\<close>.\<close>

definition m2mFieldNameRule ::
  "catalog \<Rightarrow> string \<Rightarrow> store_state \<Rightarrow> (error option \<times> store_state) option" where
  "m2mFieldNameRule cat localType st =
     (case relations st of
        [] \<Rightarrow> Some (Some TypeError, st)
      | r0 # rs \<Rightarrow>
          let fieldName = field.field (fieldData st);
              r0a = r0\<lparr>relation.meta := Some ((orEmptyRelationMeta (relation.meta r0))
                                             \<lparr>relation_meta.one_field := fieldName\<rparr>)\<rparr>;
              st1 = st\<lparr>relations := r0a # rs\<rparr>
          in (if truthy fieldName \<and> collectionExists cat fieldName \<and> localType \<noteq> ''translations''
              then (case rs of
                      [] \<Rightarrow> Some (Some TypeError, st1)
                    | r1 # rs' \<Rightarrow>
                        (case getAutomaticJunctionCollectionName cat
                                (related_collection r0a) (related_collection r1) of
                           None \<Rightarrow> None
                         | Some name \<Rightarrow>
                             let r0b = r0a\<lparr>relation.collection := Str name\<rparr>;
                                 r0c = r0b\<lparr>relation.field := Str (toStr (related_collection r0b) @ ''_id'')\<rparr>;
                                 r1a = r1\<lparr>related_collection := fieldName\<rparr>;
                                 r1b = r1a\<lparr>relation.collection :=
                                            Str (toStr (related_collection r0c) @ ''_''
                                                 @ toStr (related_collection r1a))\<rparr>;
                                 r1c = r1b\<lparr>relation.field := Str (toStr (related_collection r1b) @ ''_id'')\<rparr>;
                                 r1d = (if strictEq (relation.field r0c) (relation.field r1c)
                                        then r1c\<lparr>relation.field :=
                                                   Str (toStr (related_collection r1c) @ ''_related_id'')\<rparr>
                                        else r1c)
                             in Some (None, st1\<lparr>relations := r0c # r1d # rs'\<rparr>)))
              else Some (None, st1)))"

text \<open>
  Many-to-many, lines 659--668: the inner watcher on \<^verbatim>\<open>relations[1].related_collection\<close>,
  which exists only while auto-fill is on. Its argument is the new value of its source.
\<close>

definition m2mAutoFillRule ::
  "catalog \<Rightarrow> jsval \<Rightarrow> store_state \<Rightarrow> (error option \<times> store_state) option" where
  "m2mAutoFillRule cat newRelatedCollection st =
     (case relations st of
        r0 # r1 # rs \<Rightarrow>
          (case (if truthy newRelatedCollection
                 then (case getAutomaticJunctionCollectionName cat
                              (related_collection r0) (related_collection r1) of
                         None \<Rightarrow> None
                       | Some name0 \<Rightarrow>
                           (case getAutomaticJunctionCollectionName cat
                                   (related_collection r0) (related_collection r1) of
                              None \<Rightarrow> None
                            | Some name1 \<Rightarrow>
                                Some (r0\<lparr>relation.collection := Str name0\<rparr>,
                                      r1\<lparr>relation.collection := Str name1\<rparr>)))
                 else Some (r0, r1)) of
             None \<Rightarrow> None
           | Some (r0a, r1a) \<Rightarrow>
               let r1b = (if strictEq (relation.field r0a) (relation.field r1a)
                          then r1a\<lparr>relation.field :=
                                     Str (toStr (related_collection r1a) @ ''_related_id'')\<rparr>
                          else r1a)
               in Some (None, st\<lparr>relations := r0a # r1b # rs\<rparr>))
      | _ \<Rightarrow> Some (Some TypeError, st))"

text \<open>Translations, lines 679--685: the junction name of the second relation follows the first.\<close>

definition m2mTranslationsRule :: "jsval \<Rightarrow> store_state \<Rightarrow> error option \<times> store_state" where
  "m2mTranslationsRule newManyCollection st =
     (case relations st of
        r0 # r1 # rs \<Rightarrow>
          (None, st\<lparr>relations := r0 # r1\<lparr>relation.collection := newManyCollection\<rparr> # rs\<rparr>)
      | _ \<Rightarrow> (Some TypeError, st))"

text \<open>Files, lines 644--648: the callback handed to \<^verbatim>\<open>Vue.nextTick\<close>.\<close>

definition filesNextTick :: "store_state \<Rightarrow> error option \<times> store_state" where
  "filesNextTick st =
     (case relations st of
        r0 # r1 # rs \<Rightarrow>
          (None, st\<lparr>relations := r0 # r1\<lparr>related_collection := Str ''directus_files''\<rparr> # rs\<rparr>)
      | _ \<Rightarrow> (Some TypeError, st))"

text \<open>Many-to-any, lines 885--895: the rule on \<^verbatim>\<open>state.fieldData.field\<close>.\<close>

definition m2aFieldNameRule :: "store_state \<Rightarrow> error option \<times> store_state" where
  "m2aFieldNameRule st =
     (case relations st of
        [] \<Rightarrow> (Some TypeError, st)
      | r0 # rs \<Rightarrow>
          let fieldName = field.field (fieldData st);
              r0a = r0\<lparr>relation.one_field := fieldName\<rparr>;
              st1 = st\<lparr>relations := r0a # rs\<rparr>
          in (if autoFillJunctionRelation st
              then let r0b = r0a\<lparr>relation.collection :=
                                   Str (toStr (related_collection r0a) @ ''_'' @ toStr fieldName)\<rparr>
                   in (case rs of
                         [] \<Rightarrow> (Some TypeError, st\<lparr>relations := [r0b]\<rparr>)
                       | r1 # rs' \<Rightarrow>
                           (None, st\<lparr>relations :=
                              r0b # r1\<lparr>relation.collection :=
                                         Str (toStr (related_collection r0b) @ ''_'' @ toStr fieldName)\<rparr>
                                  # rs'\<rparr>))
              else (None, st1)))"

text \<open>
  Many-to-any, lines 897--909: the rule on \<^verbatim>\<open>state.autoFillJunctionRelation\<close>, registered
  with \<^verbatim>\<open>immediate: true\<close>. Line 903 interpolates \<^verbatim>\<open>state.relations[0].one_primary\<close>.
\<close>

definition m2aAutoFillRule :: "store_state \<Rightarrow> error option \<times> store_state" where
  "m2aAutoFillRule st =
     (if autoFillJunctionRelation st = True
      then (case relations st of
              [] \<Rightarrow> (Some TypeError, st)
            | r0 # rs \<Rightarrow>
                let fieldName = field.field (fieldData st);
                    r0a = r0\<lparr>relation.collection :=
                               Str (toStr (related_collection r0) @ ''_'' @ toStr fieldName)\<rparr>
                in (case rs of
                      [] \<Rightarrow> (Some TypeError, st\<lparr>relations := [r0a]\<rparr>)
                    | r1 # rs' \<Rightarrow>
                        let r1a = r1\<lparr>relation.collection :=
                                       Str (toStr (related_collection r0a) @ ''_'' @ toStr fieldName)\<rparr>;
                            r0b = r0a\<lparr>relation.field :=
                                        Str (toStr (related_collection r0a) @ ''_''
                                             @ toStr (one_primary r0a))\<rparr>;
                            r1b = r1a\<lparr>relation.one_collection_field := Str ''collection''\<rparr>;
                            r1c = r1b\<lparr>relation.field := Str ''item''\<rparr>
                        in (None, st\<lparr>relations := r0b # r1c # rs'\<rparr>)))
      else (None, st))"

section \<open>Initialization\<close>

text \<open>
  The category strategies, as far as they act while \<^verbatim>\<open>initLocalStore\<close> runs: their
  assignments and the callbacks of their \<^verbatim>\<open>immediate\<close> watchers. \<open>parentCollection\<close>,
  \<open>fieldKey\<close> and \<open>localType\<close> are the parameters \<^verbatim>\<open>collection\<close>, \<^verbatim>\<open>field\<close> and \<^verbatim>\<open>type\<close>.
  The watchers on \<^verbatim>\<open>availableInterfaces\<close> and \<^verbatim>\<open>availableDisplays\<close> (lines 147--163) depend
  on the interface and display registries and write only \<^verbatim>\<open>meta.interface\<close> and
  \<^verbatim>\<open>meta.display\<close>; they are outside the model.
\<close>

definition useFile :: "string \<Rightarrow> bool \<Rightarrow> store_state \<Rightarrow> store_state" where
  "useFile parentCollection isExisting st =
     (if \<not> isExisting
      then st\<lparr>fieldData := (fieldData st)\<lparr>field.type := Str ''uuid''\<rparr>,
              relations :=
                [emptyRelation
                   \<lparr>relation.collection := Str parentCollection,
                    relation.field := Str [],
                    related_collection := Str ''directus_files'',
                    relation.meta := Some (emptyRelationMeta\<lparr>relation_meta.sort_field := Null\<rparr>)\<rparr>]\<rparr>
      else st)"

definition useM2O :: "string \<Rightarrow> bool \<Rightarrow> store_state \<Rightarrow> store_state" where
  "useM2O parentCollection isExisting st =
     (if isExisting = False
      then st\<lparr>relations :=
                [emptyRelation
                   \<lparr>relation.collection := Str parentCollection,
                    relation.field := Str [],
                    related_collection := Str [],
                    relation.meta := Some (emptyRelationMeta\<lparr>relation_meta.sort_field := Null\<rparr>)\<rparr>]\<rparr>
      else st)"

text \<open>\<^verbatim>\<open>delete state.fieldData.schema; delete state.fieldData.type\<close>.\<close>

definition deleteSchemaAndType :: "store_state \<Rightarrow> store_state" where
  "deleteSchemaAndType st =
     st\<lparr>fieldData := (fieldData st)\<lparr>field.schema := None, field.type := Undefined\<rparr>\<rparr>"

text \<open>\<^verbatim>\<open>state.fieldData.meta = { ...(state.fieldData.meta || {}), special: [...] }\<close>.\<close>

definition setSpecial :: "string list \<Rightarrow> store_state \<Rightarrow> store_state" where
  "setSpecial tags st =
     st\<lparr>fieldData := (fieldData st)
        \<lparr>field.meta := Some ((orEmptyMeta (field.meta (fieldData st)))\<lparr>special := StrArr tags\<rparr>)\<rparr>\<rparr>"

definition useO2M :: "string \<Rightarrow> bool \<Rightarrow> store_state \<Rightarrow> store_state" where
  "useO2M parentCollection isExisting st =
     (let st1 = deleteSchemaAndType st
      in if \<not> isExisting
         then (setSpecial [''o2m''] st1)
                \<lparr>relations :=
                   [emptyRelation
                      \<lparr>relation.collection := Str [],
                       relation.field := Str [],
                       related_collection := Str parentCollection,
                       relation.meta := Some (emptyRelationMeta
                         \<lparr>relation_meta.one_field := field.field (fieldData st1),
                          relation_meta.sort_field := Null\<rparr>)\<rparr>]\<rparr>
         else st1)"

text \<open>
  Lines 678--700: the translations block of \<^verbatim>\<open>useM2M\<close>. It is not guarded by
  \<^verbatim>\<open>isExisting\<close>. Its watcher is \<^verbatim>\<open>immediate\<close>, so the callback runs once at registration;
  the assignments follow. With fewer than two relation records the block throws.
\<close>

definition translationsDefaults :: "catalog \<Rightarrow> string \<Rightarrow> store_state \<Rightarrow> error option \<times> store_state" where
  "translationsDefaults cat parentCollection st =
     (case relations st of
        r0 # r1 # rs \<Rightarrow>
          let r1a = r1\<lparr>relation.collection := relation.collection r0\<rparr>;
              r0a = r0\<lparr>relation.collection := Str (parentCollection @ ''_translations'')\<rparr>;
              r0b = r0a\<lparr>relation.field :=
                          Str (parentCollection @ ''_''
                               @ toStr (case getPrimaryKeyFieldForCollection cat parentCollection of
                                          None \<Rightarrow> Undefined
                                        | Some pk \<Rightarrow> field.field pk))\<rparr>;
              r1b = r1a\<lparr>related_collection := Str ''languages''\<rparr>;
              r1c = r1b\<lparr>relation.field := Str (toStr (related_collection r1b) @ ''_id'')\<rparr>;
              r0c = r0b\<lparr>relation.meta := Some ((orEmptyRelationMeta (relation.meta r0b))
                                             \<lparr>relation_meta.one_field := Str ''translations''\<rparr>)\<rparr>
          in (None, st\<lparr>fieldData := (fieldData st)\<lparr>field.field := Str ''translations''\<rparr>,
                       relations := r0c # r1c # rs\<rparr>)
      | _ \<Rightarrow> (Some TypeError, st))"

definition useM2M ::
  "catalog \<Rightarrow> string \<Rightarrow> string \<Rightarrow> bool \<Rightarrow> store_state \<Rightarrow> error option \<times> store_state" where
  "useM2M cat parentCollection localType isExisting st =
     (let st1 = deleteSchemaAndType st;
          st2 = (if \<not> isExisting
                 then (setSpecial [localType] st1)
                        \<lparr>relations :=
                           [emptyRelation
                              \<lparr>relation.collection := Str [],
                               relation.field := Str [],
                               related_collection := Str parentCollection,
                               relation.meta := Some (emptyRelationMeta
                                 \<lparr>relation_meta.one_field := field.field (fieldData st1),
                                  relation_meta.sort_field := Null\<rparr>)\<rparr>,
                            emptyRelation
                              \<lparr>relation.collection := Str [],
                               relation.field := Str [],
                               related_collection := Str [],
                               relation.meta := Some (emptyRelationMeta
                                 \<lparr>relation_meta.one_field := Null,
                                  relation_meta.sort_field := Null\<rparr>)\<rparr>]\<rparr>
                 else st1)
      in if localType = ''translations'' then translationsDefaults cat parentCollection st2
         else (None, st2))"

definition useM2A :: "string \<Rightarrow> string \<Rightarrow> bool \<Rightarrow> store_state \<Rightarrow> error option \<times> store_state" where
  "useM2A parentCollection localType isExisting st =
     (let st1 = deleteSchemaAndType st;
          st2 = (if \<not> isExisting
                 then (setSpecial [localType] st1)
                        \<lparr>relations :=
                           [emptyRelation
                              \<lparr>relation.collection := Str [],
                               relation.field := Str [],
                               related_collection := Str parentCollection,
                               relation.meta := Some (emptyRelationMeta
                                 \<lparr>relation_meta.one_field := field.field (fieldData st1),
                                  relation_meta.sort_field := Null\<rparr>)\<rparr>,
                            emptyRelation
                              \<lparr>relation.collection := Str [],
                               relation.field := Str [],
                               related_collection := Null,
                               relation.meta := Some (emptyRelationMeta
                                 \<lparr>relation_meta.one_field := Null,
                                  one_allowed_collections := StrArr [],
                                  relation_meta.one_collection_field := Str [],
                                  relation_meta.sort_field := Null\<rparr>)\<rparr>]\<rparr>
                 else st1)
      in m2aAutoFillRule st2)"

definition usePresentation :: "store_state \<Rightarrow> error option \<times> store_state" where
  "usePresentation st =
     (let st1 = st\<lparr>fieldData := (fieldData st)\<lparr>field.schema := None, field.type := Null\<rparr>\<rparr>
      in case field.meta (fieldData st1) of
           None \<Rightarrow> (Some TypeError, st1)
         | Some m \<Rightarrow>
             (None, st1\<lparr>fieldData := (fieldData st1)
                        \<lparr>field.meta := Some (m\<lparr>special := StrArr [''alias'', ''no-data'']\<rparr>)\<rparr>\<rparr>))"

text \<open>
  \<^verbatim>\<open>initLocalStore\<close>, lines 43--177. The result is the module-level \<^verbatim>\<open>state\<close> when the
  function returns or throws. \<^verbatim>\<open>useStandard\<close> only registers a watcher.
\<close>

definition initLocalStore ::
  "catalog \<Rightarrow> string \<Rightarrow> string \<Rightarrow> string \<Rightarrow> error option \<times> store_state" where
  "initLocalStore cat parentCollection fieldKey localType =
     (let isExisting = (fieldKey \<noteq> ''+'')
      in case (if isExisting
               then (case getField cat parentCollection fieldKey of
                       None \<Rightarrow> (Some TypeError, initialState)
                     | Some existingField \<Rightarrow>
                         (None, initialState
                            \<lparr>fieldData := (fieldData initialState)
                               \<lparr>field.field := field.field existingField,
                                field.type := field.type existingField,
                                field.schema := field.schema existingField,
                                field.meta := field.meta existingField\<rparr>,
                             relations := getRelationsForField cat parentCollection fieldKey\<rparr>))
               else (None, initialState\<lparr>autoFillJunctionRelation := True\<rparr>)) of
           (Some e, st) \<Rightarrow> (Some e, st)
         | (None, st) \<Rightarrow>
             let st1 = (case field.meta (fieldData st) of
                          None \<Rightarrow> st
                        | Some m \<Rightarrow>
                            (if isExisting = False \<and> localType = ''translations''
                             then st\<lparr>fieldData := (fieldData st)
                                     \<lparr>field.meta := Some (m\<lparr>interface := Str ''translations''\<rparr>)\<rparr>\<rparr>
                             else st))
             in (if localType = ''file'' then (None, useFile parentCollection isExisting st1)
                 else if localType = ''m2o'' then (None, useM2O parentCollection isExisting st1)
                 else if localType = ''m2m'' \<or> localType = ''files'' \<or> localType = ''translations''
                   then useM2M cat parentCollection localType isExisting st1
                 else if localType = ''o2m'' then (None, useO2M parentCollection isExisting st1)
                 else if localType = ''presentation'' then usePresentation st1
                 else if localType = ''m2a'' then useM2A parentCollection localType isExisting st1
                 else (None, st1)))"

section \<open>A many-to-many session: watchers, throttle, teardown\<close>

text \<open>
  What lives beside the state while a many-to-many editor is open: whether the inner
  auto-fill watcher of lines 657--669 is registered (the \<^verbatim>\<open>stop\<close> handle), and the throttled
  wrapper of \<^verbatim>\<open>syncNewCollectionsM2M\<close>. The module-level \<^verbatim>\<open>state\<close> is \<open>None\<close> when it is
  \<^verbatim>\<open>null\<close>.

  \<^verbatim>\<open>throttle(f, 50)\<close> of lodash invokes \<open>f\<close> on the leading edge and starts a timer; a call
  while the timer runs only records its arguments, and when the timer expires the recorded
  call, if any, is invoked (the trailing edge). The timer is the flag \<open>timerId\<close> and the
  recorded arguments are \<open>lastArgs\<close>; elapsed time is not modelled beyond the two events
  \<^emph>\<open>call\<close> and \<^emph>\<open>timer expires\<close>.
\<close>

type_synonym sync_args = "jsval \<times> jsval \<times> jsval \<times> jsval \<times> jsval"

record session =
  state :: "store_state option"
  autoFillWatcher :: bool
  timerId :: bool
  lastArgs :: "sync_args option"

definition keepFirst :: "error option \<Rightarrow> error option \<Rightarrow> error option" where
  "keepFirst e1 e2 = (case e1 of None \<Rightarrow> e2 | Some e \<Rightarrow> Some e)"

text \<open>A callback run on the module-level state; on a \<^verbatim>\<open>null\<close> state its first access throws.\<close>

definition onState ::
  "(store_state \<Rightarrow> error option \<times> store_state) \<Rightarrow> session \<Rightarrow> error option \<times> session" where
  "onState rule ses =
     (case state ses of
        None \<Rightarrow> (Some TypeError, ses)
      | Some st \<Rightarrow> (case rule st of (e, st') \<Rightarrow> (e, ses\<lparr>state := Some st'\<rparr>)))"

text \<open>
  A flush runs the callbacks of the watchers whose source changed, in the order of their
  registration; a callback that throws is reported and the next one still runs.
\<close>

definition thenRun ::
  "error option \<times> session \<Rightarrow> (session \<Rightarrow> error option \<times> session) \<Rightarrow> error option \<times> session" where
  "thenRun r cb =
     (case r of (e, ses) \<Rightarrow> (case cb ses of (e', ses') \<Rightarrow> (keepFirst e e', ses')))"

text \<open>
  A session right after \<^verbatim>\<open>initLocalStore\<close>. In the many-to-many strategy, for the categories
  \<open>m2m\<close> and \<open>files\<close>, the immediate callback of lines 653--675 has registered the inner
  watcher if auto-fill is on.
\<close>

definition startSession ::
  "catalog \<Rightarrow> string \<Rightarrow> string \<Rightarrow> string \<Rightarrow> error option \<times> session" where
  "startSession cat parentCollection fieldKey localType =
     (case initLocalStore cat parentCollection fieldKey localType of
        (e, st) \<Rightarrow>
          (e, \<lparr>state = Some st,
               autoFillWatcher = ((localType = ''m2m'' \<or> localType = ''files'')
                                  \<and> autoFillJunctionRelation st),
               timerId = False,
               lastArgs = None\<rparr>))"

text \<open>\<^verbatim>\<open>clearLocalStore\<close>, lines 964--966: \<^verbatim>\<open>state = null\<close> and nothing else.\<close>

definition clearLocalStore :: "session \<Rightarrow> session" where
  "clearLocalStore ses = ses\<lparr>state := None\<rparr>"

text \<open>The watch sources of the sync rule, lines 610--619.\<close>

definition syncSourcesM2M :: "store_state \<Rightarrow> sync_args option" where
  "syncSourcesM2M st =
     (case relations st of
        r0 # r1 # rs \<Rightarrow>
          Some (relation.collection r0, relation.field r0, relation.field r1,
                related_collection r1,
                (case relation.meta r0 of
                   None \<Rightarrow> Undefined
                 | Some m \<Rightarrow> relation_meta.sort_field m))
      | _ \<Rightarrow> None)"

definition invokeSyncM2M ::
  "catalog \<Rightarrow> string \<Rightarrow> string \<Rightarrow> sync_args \<Rightarrow> session \<Rightarrow> error option \<times> session" where
  "invokeSyncM2M cat parentCollection localType args ses =
     onState (syncNewCollectionsM2M cat parentCollection localType args) ses"

text \<open>A call of the throttled rule.\<close>

definition throttledSyncM2M ::
  "catalog \<Rightarrow> string \<Rightarrow> string \<Rightarrow> sync_args \<Rightarrow> session \<Rightarrow> error option \<times> session" where
  "throttledSyncM2M cat parentCollection localType args ses =
     (if timerId ses
      then (None, ses\<lparr>lastArgs := Some args\<rparr>)
      else invokeSyncM2M cat parentCollection localType args (ses\<lparr>timerId := True, lastArgs := None\<rparr>))"

text \<open>The timer of the throttled rule expires.\<close>

definition timerExpired ::
  "catalog \<Rightarrow> string \<Rightarrow> string \<Rightarrow> session \<Rightarrow> error option \<times> session" where
  "timerExpired cat parentCollection localType ses =
     (case lastArgs ses of
        None \<Rightarrow> (None, ses\<lparr>timerId := False\<rparr>)
      | Some args \<Rightarrow>
          invokeSyncM2M cat parentCollection localType args (ses\<lparr>timerId := False, lastArgs := None\<rparr>))"

text \<open>The sync watcher fires: its sources are read and handed to the throttled rule.\<close>

definition syncWatcherM2M ::
  "catalog \<Rightarrow> string \<Rightarrow> string \<Rightarrow> session \<Rightarrow> error option \<times> session" where
  "syncWatcherM2M cat parentCollection localType ses =
     (case state ses of
        None \<Rightarrow> (Some TypeError, ses)
      | Some st \<Rightarrow>
          (case syncSourcesM2M st of
             None \<Rightarrow> (Some TypeError, ses)
           | Some args \<Rightarrow> throttledSyncM2M cat parentCollection localType args ses))"

text \<open>
  The user switches auto-fill (lines 653--675). The outer watcher fires when the value
  changed: \<^verbatim>\<open>true\<close> registers the inner watcher, \<^verbatim>\<open>false\<close> calls \<^verbatim>\<open>stop\<close>. The translations
  category has no such watcher.
\<close>

definition userSetsAutoFill :: "string \<Rightarrow> bool \<Rightarrow> session \<Rightarrow> error option \<times> session" where
  "userSetsAutoFill localType startWatching ses =
     (case state ses of
        None \<Rightarrow> (Some TypeError, ses)
      | Some st \<Rightarrow>
          (if autoFillJunctionRelation st = startWatching then (None, ses)
           else let ses1 = ses\<lparr>state := Some (st\<lparr>autoFillJunctionRelation := startWatching\<rparr>)\<rparr>
                in if localType \<noteq> ''translations''
                   then (None, ses1\<lparr>autoFillWatcher := startWatching\<rparr>)
                   else (None, ses1)))"

text \<open>
  The inner auto-fill watcher fires after the sync watcher. What it writes
  (\<^verbatim>\<open>relations[0].collection\<close>, \<^verbatim>\<open>relations[1].collection\<close>, \<^verbatim>\<open>relations[1].field\<close>) is watched
  in turn: by the rule of lines 600--608 and by the sync watcher, which run again in the same
  flush if their sources changed.
\<close>

definition autoFillWatcherFires ::
  "catalog \<Rightarrow> string \<Rightarrow> string \<Rightarrow> jsval \<Rightarrow> error option \<times> session
     \<Rightarrow> (error option \<times> session) option" where
  "autoFillWatcherFires cat parentCollection localType newRelatedCollection r =
     (case r of (e, ses) \<Rightarrow>
        (case state ses of
           None \<Rightarrow> Some (keepFirst e (Some TypeError), ses)
         | Some st \<Rightarrow>
             (case m2mAutoFillRule cat newRelatedCollection st of
                None \<Rightarrow> None
              | Some (e1, st1) \<Rightarrow>
                  let r1 = (keepFirst e e1, ses\<lparr>state := Some st1\<rparr>);
                      r2 = (if map relation.field (relations st1) \<noteq> map relation.field (relations st)
                            then thenRun r1 (onState junctionFieldRule1) else r1);
                      r3 = (if syncSourcesM2M st1 \<noteq> syncSourcesM2M st
                            then thenRun r2 (syncWatcherM2M cat parentCollection localType) else r2)
                  in Some r3)))"

text \<open>
  The user picks another related collection: \<^verbatim>\<open>relations[1].related_collection\<close> changes and
  the watchers on it fire, the sync watcher and, if registered, the inner auto-fill watcher.
\<close>

definition userSetsRelatedCollection ::
  "catalog \<Rightarrow> string \<Rightarrow> string \<Rightarrow> jsval \<Rightarrow> session \<Rightarrow> (error option \<times> session) option" where
  "userSetsRelatedCollection cat parentCollection localType v ses =
     (case state ses of
        None \<Rightarrow> Some (Some TypeError, ses)
      | Some st \<Rightarrow>
          (case relations st of
             r0 # r1 # rs \<Rightarrow>
               (if related_collection r1 = v then Some (None, ses)
                else let ses1 = ses\<lparr>state := Some (st\<lparr>relations :=
                                                         r0 # r1\<lparr>related_collection := v\<rparr> # rs\<rparr>)\<rparr>;
                         r = syncWatcherM2M cat parentCollection localType ses1
                     in if autoFillWatcher ses
                        then autoFillWatcherFires cat parentCollection localType v r
                        else Some r)
           | _ \<Rightarrow> Some (Some TypeError, ses)))"

text \<open>
  The user edits the junction collection name \<^verbatim>\<open>relations[0].collection\<close>; of the many-to-many
  watchers only the sync watcher has it as a source.
\<close>

definition userSetsJunctionCollection ::
  "catalog \<Rightarrow> string \<Rightarrow> string \<Rightarrow> jsval \<Rightarrow> session \<Rightarrow> error option \<times> session" where
  "userSetsJunctionCollection cat parentCollection localType v ses =
     (case state ses of
        None \<Rightarrow> (Some TypeError, ses)
      | Some st \<Rightarrow>
          (case relations st of
             [] \<Rightarrow> (Some TypeError, ses)
           | r0 # rs \<Rightarrow>
               (if relation.collection r0 = v then (None, ses)
                else syncWatcherM2M cat parentCollection localType
                       (ses\<lparr>state := Some (st\<lparr>relations := r0\<lparr>relation.collection := v\<rparr> # rs\<rparr>)\<rparr>))))"

text \<open>
  The first flush after a new translations field was initialized. Every source of the
  many-to-many watchers was written after its watcher was registered (lines 687--699), so
  each callback runs once, in the order of registration: lines 590, 600, 610, 621 and 679.
\<close>

definition flushNewTranslations ::
  "catalog \<Rightarrow> string \<Rightarrow> session \<Rightarrow> (error option \<times> session) option" where
  "flushNewTranslations cat parentCollection ses =
     (let r1 = onState junctionFieldRule0 ses;
          r2 = thenRun r1 (onState junctionFieldRule1);
          r3 = thenRun r2 (syncWatcherM2M cat parentCollection ''translations'')
      in case r3 of (e3, ses3) \<Rightarrow>
           (case state ses3 of
              None \<Rightarrow> Some (keepFirst e3 (Some TypeError), ses3)
            | Some st3 \<Rightarrow>
                (case m2mFieldNameRule cat ''translations'' st3 of
                   None \<Rightarrow> None
                 | Some (e4, st4) \<Rightarrow>
                     Some (thenRun (keepFirst e3 e4, ses3\<lparr>state := Some st4\<rparr>)
                             (onState (\<lambda>st. case relations st of
                                               [] \<Rightarrow> (Some TypeError, st)
                                             | r0 # rs \<Rightarrow> m2mTranslationsRule (relation.collection r0) st))))))"

text \<open>
  The sessions of the many-to-many strategy (categories \<open>m2m\<close> and \<open>files\<close>) that the events
  above reach: opening the editor on a new or an existing field, switching auto-fill,
  editing the related collection or the junction collection, and the throttle timer
  expiring.
\<close>

inductive reachable :: "catalog \<Rightarrow> string \<Rightarrow> string \<Rightarrow> session \<Rightarrow> bool"
  for cat :: catalog and parentCollection :: string and localType :: string where
  opened:
    "localType = ''m2m'' \<or> localType = ''files'' \<Longrightarrow>
     startSession cat parentCollection fieldKey localType = (e, ses) \<Longrightarrow>
     reachable cat parentCollection localType ses"
| toggled:
    "reachable cat parentCollection localType ses \<Longrightarrow>
     userSetsAutoFill localType b ses = (e, ses') \<Longrightarrow>
     reachable cat parentCollection localType ses'"
| related_changed:
    "reachable cat parentCollection localType ses \<Longrightarrow>
     userSetsRelatedCollection cat parentCollection localType v ses = Some (e, ses') \<Longrightarrow>
     reachable cat parentCollection localType ses'"
| junction_changed:
    "reachable cat parentCollection localType ses \<Longrightarrow>
     userSetsJunctionCollection cat parentCollection localType v ses = (e, ses') \<Longrightarrow>
     reachable cat parentCollection localType ses'"
| timer_expired:
    "reachable cat parentCollection localType ses \<Longrightarrow>
     timerExpired cat parentCollection localType ses = (e, ses') \<Longrightarrow>
     reachable cat parentCollection localType ses'"

section \<open>Measures and concrete inputs\<close>

text \<open>The three derived lists of a state, compared as lists: same entries, same order.\<close>

definition sameDerivedLists :: "store_state \<Rightarrow> store_state \<Rightarrow> bool" where
  "sameDerivedLists s t =
     (newCollections s = newCollections t \<and> newFields s = newFields t \<and> newRows s = newRows t)"

text \<open>How many proposed collections, or fields, carry a given \<^verbatim>\<open>$type\<close> tag.\<close>

definition countCollections :: "string \<Rightarrow> store_state \<Rightarrow> nat" where
  "countCollections tag st =
     length (filter (\<lambda>c. collection.dollar_type c = Str tag) (newCollections st))"

definition countFields :: "string \<Rightarrow> store_state \<Rightarrow> nat" where
  "countFields tag st = length (filter (\<lambda>f. field.dollar_type f = Str tag) (newFields st))"

text \<open>The catalog that holds the first \<open>cap + 1\<close> candidates for the base names \<open>a\<close>, \<open>b\<close>.\<close>

definition candidateTables :: "nat \<Rightarrow> (string \<times> (string \<times> string) list) list" where
  "candidateTables cap = map (\<lambda>j. (getName (Str ''a'') (Str ''b'') j, [])) [0..<Suc cap]"

text \<open>A small catalog: \<open>articles\<close> with an integer key and \<open>tags\<close> with a uuid key.\<close>

definition blogCatalog :: catalog where
  "blogCatalog =
     catalogOfTables
       [(''articles'', [(''id'', ''integer'')]),
        (''tags'', [(''id'', ''uuid'')])] []"

text \<open>The same with a junction collection \<open>articles_translations\<close> already present.\<close>

definition articlesCatalog :: catalog where
  "articlesCatalog =
     catalogOfTables
       [(''articles'', [(''id'', ''integer'')]),
        (''articles_translations'', [(''id'', ''integer'')])] []"

text \<open>
  A catalog with an existing translations field \<open>articles.i18n\<close> whose junction and
  languages collections were named by the user, and the two relation records stored for it.
\<close>

definition storedTranslationRelations :: "relation list" where
  "storedTranslationRelations =
     [emptyRelation
        \<lparr>relation.collection := Str ''articles_i18n'',
         relation.field := Str ''article'',
         related_collection := Str ''articles'',
         relation.meta := Some (emptyRelationMeta
           \<lparr>relation_meta.one_field := Str ''i18n'', junction_field := Str ''locale''\<rparr>)\<rparr>,
      emptyRelation
        \<lparr>relation.collection := Str ''articles_i18n'',
         relation.field := Str ''locale'',
         related_collection := Str ''locales'',
         relation.meta := Some (emptyRelationMeta\<lparr>junction_field := Str ''article''\<rparr>)\<rparr>]"

definition i18nCatalog :: catalog where
  "i18nCatalog =
     catalogOfTables
       [(''articles'', [(''id'', ''integer''), (''i18n'', ''alias'')]),
        (''articles_i18n'',
           [(''id'', ''integer''), (''article'', ''integer''), (''locale'', ''string'')]),
        (''locales'', [(''code'', ''string''), (''name'', ''string'')])]
       [((''articles'', ''i18n''), storedTranslationRelations)]"

text \<open>A new many-to-one field on \<open>articles\<close> after the user picked a related collection.\<close>

definition m2oPicked :: "string \<Rightarrow> store_state" where
  "m2oPicked target =
     (snd (initLocalStore blogCatalog ''articles'' ''+'' ''m2o''))
       \<lparr>relations := [emptyRelation\<lparr>relation.collection := Str ''articles'',
                                     relation.field := Str ''tag'',
                                     related_collection := Str target\<rparr>]\<rparr>"

text \<open>
  A new many-to-many field on \<open>articles\<close> in which the user typed the same name
  \<open>tags_related_id\<close> for both junction fields.
\<close>

definition sameNamesState :: store_state where
  "sameNamesState =
     (snd (initLocalStore blogCatalog ''articles'' ''+'' ''m2m''))
       \<lparr>relations :=
          [emptyRelation\<lparr>relation.collection := Str ''articles_tags'',
                          relation.field := Str ''tags_related_id'',
                          related_collection := Str ''articles''\<rparr>,
           emptyRelation\<lparr>relation.collection := Str ''articles_tags'',
                          relation.field := Str ''tags_related_id'',
                          related_collection := Str ''tags''\<rparr>]\<rparr>"

text \<open>
  A new many-to-many session on \<open>articles\<close> in which the user typed the junction name
  \<open>l\<close> and then \<open>li\<close> before the throttle timer expired, and the session in which the user
  named the junction collection \<open>my_links\<close>.
\<close>

definition typingSession :: session where
  "typingSession =
     snd (userSetsJunctionCollection blogCatalog ''articles'' ''m2m'' (Str ''li'')
       (snd (userSetsJunctionCollection blogCatalog ''articles'' ''m2m'' (Str ''l'')
         (snd (startSession blogCatalog ''articles'' ''+'' ''m2m'')))))"

definition namedJunctionSession :: session where
  "namedJunctionSession =
     snd (userSetsJunctionCollection blogCatalog ''articles'' ''m2m'' (Str ''my_links'')
       (snd (startSession blogCatalog ''articles'' ''+'' ''m2m'')))"

text \<open>
  The rule at a self-referencing field: a new many-to-many field named \<open>articles\<close> on the
  collection \<open>articles\<close>. Both names would be \<open>articles_id\<close>; the second becomes
  \<open>articles_related_id\<close>.
\<close>

definition selfReferenceState :: store_state where
  "selfReferenceState =
     (let st = snd (initLocalStore blogCatalog ''articles'' ''+'' ''m2m'')
      in st\<lparr>fieldData := (fieldData st)\<lparr>field.field := Str ''articles''\<rparr>\<rparr>)"

text \<open>
  A new many-to-many field on \<open>articles\<close> right after the user picked \<open>tags\<close> as its
  related collection; both junction field names are still empty.
\<close>

definition pickedTagsState :: store_state where
  "pickedTagsState =
     (let st = snd (initLocalStore blogCatalog ''articles'' ''+'' ''m2m'')
      in case relations st of
           r0 # r1 # rs \<Rightarrow> st\<lparr>relations := r0 # r1\<lparr>related_collection := Str ''tags''\<rparr> # rs\<rparr>
         | _ \<Rightarrow> st)"

section \<open>Properties of the naming helper\<close>

lemma digit_val_digit_char: "d < 10 \<Longrightarrow> digit_val (digit_char d) = d"
proof -
  assume "d < 10"
  then have "d \<in> {0, 1, 2, 3, 4, 5, 6, 7, 8, 9}" by auto
  then show ?thesis
    by (auto simp: digit_val_def digit_char_def)
qed

lemma nat_of_string_snoc: "nat_of_string (s @ [c]) = nat_of_string s * 10 + digit_val c"
  by (simp add: nat_of_string_def)

lemma nat_of_string_of_nat: "nat_of_string (string_of_nat n) = n"
proof (induction n rule: string_of_nat.induct)
  case (1 n)
  show ?case
  proof (cases "n < 10")
    case True
    then show ?thesis
      by (simp add: string_of_nat.simps [of n] nat_of_string_def digit_val_digit_char)
  next
    case False
    with 1 have "nat_of_string (string_of_nat (n div 10)) = n div 10" by simp
    with False show ?thesis
      by (simp add: string_of_nat.simps [of n] nat_of_string_snoc digit_val_digit_char)
  qed
qed

lemma string_of_nat_inj: "string_of_nat m = string_of_nat n \<Longrightarrow> m = n"
  by (metis nat_of_string_of_nat)

lemma getName_inj: "getName a b i = getName a b j \<Longrightarrow> i = j"
  by (auto simp: getName_def Let_def split: if_splits dest: string_of_nat_inj)

lemma getName_0: "getName a b 0 = toStr a @ ''_'' @ toStr b"
  by (simp add: getName_def)

lemma getName_Suc:
  "getName a b (Suc n) = toStr a @ ''_'' @ toStr b @ ''_'' @ string_of_nat (Suc n)"
  by (simp add: getName_def)

text \<open>From any index at or below the first free candidate, the loop returns that candidate.\<close>

lemma junctionNameLoop_reaches:
  assumes free: "\<not> collectionExists cat (Str (getName a b k))"
    and taken: "\<forall>j<k. collectionExists cat (Str (getName a b j))"
    and le: "i \<le> k"
  shows "junctionNameLoop cat a b i (getName a b i) = Some (getName a b k)"
  using le
proof (induction "k - i" arbitrary: i)
  case 0
  then have "i = k" by simp
  with free show ?case
    by (subst junctionNameLoop.simps) simp
next
  case (Suc d)
  then have lt: "i < k" and step: "d = k - (i + 1)" and le': "i + 1 \<le> k" by auto
  from lt taken have ex: "collectionExists cat (Str (getName a b i))" by blast
  have "junctionNameLoop cat a b i (getName a b i)
        = junctionNameLoop cat a b (i + 1) (getName a b (i + 1))"
    using ex by (subst junctionNameLoop.simps) simp
  also have "\<dots> = Some (getName a b k)"
    using Suc.hyps(1) [OF step le'] .
  finally show ?case .
qed

text \<open>In a finite catalog some candidate is free, and the first free one comes early.\<close>

lemma first_free_candidate:
  assumes fin: "finite {n. collectionExists cat (Str n)}"
  shows "\<exists>k. \<not> collectionExists cat (Str (getName a b k))
           \<and> (\<forall>j<k. collectionExists cat (Str (getName a b j)))
           \<and> k \<le> card {n. collectionExists cat (Str n)}"
proof -
  let ?E = "{n. collectionExists cat (Str n)}"
  have inj: "inj (getName a b)"
    by (rule injI) (rule getName_inj)
  have "\<exists>k. getName a b k \<notin> ?E"
  proof (rule ccontr)
    assume "\<not> (\<exists>k. getName a b k \<notin> ?E)"
    then have "range (getName a b) \<subseteq> ?E" by auto
    with fin have "finite (range (getName a b))" by (rule rev_finite_subset)
    with inj have "finite (UNIV :: nat set)" by (rule finite_imageD [rotated])
    then show False by simp
  qed
  then obtain k0 where k0: "getName a b k0 \<notin> ?E" ..
  define k where "k = (LEAST k. getName a b k \<notin> ?E)"
  from k0 have free: "getName a b k \<notin> ?E"
    unfolding k_def by (rule LeastI)
  have taken: "\<forall>j<k. getName a b j \<in> ?E"
    unfolding k_def using not_less_Least by blast
  then have sub: "getName a b ` {..<k} \<subseteq> ?E" by auto
  have "card (getName a b ` {..<k}) = k"
    using inj by (simp add: card_image inj_on_def)
  with card_mono [OF fin sub] have "k \<le> card ?E" by simp
  with free taken show ?thesis by auto
qed

lemma collectionExists_catalogOfTables:
  "collectionExists (catalogOfTables tables stored) (Str n) = (n \<in> fst ` set tables)"
proof -
  have "(map_of tables n \<noteq> None) = (n \<in> fst ` set tables)"
    by (simp add: map_of_eq_None_iff)
  then show ?thesis
    by (auto simp: collectionExists_def catalogOfTables_def split: option.splits)
qed

lemma finite_catalogOfTables:
  "finite {n. collectionExists (catalogOfTables tables stored) (Str n)}"
  by (simp add: collectionExists_catalogOfTables)

lemma string_of_nat_digit: "n < 10 \<Longrightarrow> string_of_nat n = [digit_char n]"
  by (simp add: string_of_nat.simps)

text \<open>
  C1. For every finite catalog snapshot and every pair of base names, the helper returns,
  and what it returns is the first candidate of the sequence \<open>a_b\<close>, \<open>a_b_1\<close>, \<open>a_b_2\<close>, ...
  that does not exist in the catalog: the candidate itself is free and every earlier
  candidate exists. The candidates are \<open>getName a b 0 = a_b\<close> and
  \<open>getName a b n = a_b_n\<close> in decimal for \<open>n > 0\<close>.
\<close>

theorem junction_name_first_free:
  assumes "finite {n. collectionExists cat (Str n)}"
  shows "\<exists>k. getAutomaticJunctionCollectionName cat a b = Some (getName a b k)
           \<and> \<not> collectionExists cat (Str (getName a b k))
           \<and> (\<forall>j<k. collectionExists cat (Str (getName a b j)))
           \<and> getName a b 0 = toStr a @ ''_'' @ toStr b
           \<and> (\<forall>n>0. getName a b n = toStr a @ ''_'' @ toStr b @ ''_'' @ string_of_nat n)"
proof -
  from first_free_candidate [OF assms, of a b] obtain k where
    free: "\<not> collectionExists cat (Str (getName a b k))" and
    taken: "\<forall>j<k. collectionExists cat (Str (getName a b j))" by blast
  have "getAutomaticJunctionCollectionName cat a b = Some (getName a b k)"
    unfolding getAutomaticJunctionCollectionName_def
    by (rule junctionNameLoop_reaches [OF free taken]) simp
  moreover have "\<forall>n>0. getName a b n = toStr a @ ''_'' @ toStr b @ ''_'' @ string_of_nat n"
    by (simp add: getName_def)
  ultimately show ?thesis
    using free taken getName_0 by blast
qed

theorem junction_name_first_free_witness:
  "finite {n. collectionExists (catalogOfTables [(''articles_tags'', []), (''articles_tags_1'', [])] []) (Str n)}
   \<and> getAutomaticJunctionCollectionName
        (catalogOfTables [(''articles_tags'', []), (''articles_tags_1'', [])] [])
        (Str ''articles'') (Str ''tags'') = Some ''articles_tags_2''"
proof -
  let ?cat = "catalogOfTables [(''articles_tags'', []), (''articles_tags_1'', [])] []"
  have fin: "finite {n. collectionExists ?cat (Str n)}"
    by (rule finite_catalogOfTables)
  from junction_name_first_free [OF fin, of "Str ''articles''" "Str ''tags''"]
  obtain k where res: "getAutomaticJunctionCollectionName ?cat (Str ''articles'') (Str ''tags'')
                       = Some (getName (Str ''articles'') (Str ''tags'') k)"
    and free: "\<not> collectionExists ?cat (Str (getName (Str ''articles'') (Str ''tags'') k))"
    and taken: "\<forall>j<k. collectionExists ?cat (Str (getName (Str ''articles'') (Str ''tags'') j))"
    by blast
  have g0: "getName (Str ''articles'') (Str ''tags'') 0 = ''articles_tags''"
    by (simp add: getName_def)
  have g1: "getName (Str ''articles'') (Str ''tags'') 1 = ''articles_tags_1''"
    by (simp add: getName_def string_of_nat_digit digit_char_def)
  have g2: "getName (Str ''articles'') (Str ''tags'') 2 = ''articles_tags_2''"
    by (simp add: getName_def string_of_nat_digit digit_char_def)
  have "k \<noteq> 0"
  proof
    assume "k = 0"
    with free g0 show False by (simp add: collectionExists_catalogOfTables)
  qed
  moreover have "k \<noteq> 1"
  proof
    assume "k = 1"
    with free g1 show False by (simp add: collectionExists_catalogOfTables)
  qed
  moreover have "\<not> 2 < k"
  proof
    assume "2 < k"
    with taken have "collectionExists ?cat (Str (getName (Str ''articles'') (Str ''tags'') 2))" by blast
    then show False by (simp add: g2 collectionExists_catalogOfTables)
  qed
  ultimately have "k = 2" by arith
  with res g2 fin show ?thesis by simp
qed

text \<open>
  C9 (as the code has it). For every finite catalog snapshot the probing loop returns, and
  the suffix it stops at is at most the number of collections in the catalog. The helper has
  no cap of its own and no way to report an exhausted name space: its only results are a
  name or, for a catalog that holds every candidate, no return at all.
\<close>

theorem junction_name_terminates_within_catalog_size:
  assumes "finite {n. collectionExists cat (Str n)}"
  shows "\<exists>k. getAutomaticJunctionCollectionName cat a b = Some (getName a b k)
           \<and> k \<le> card {n. collectionExists cat (Str n)}"
proof -
  from first_free_candidate [OF assms, of a b] obtain k where
    free: "\<not> collectionExists cat (Str (getName a b k))" and
    taken: "\<forall>j<k. collectionExists cat (Str (getName a b j))" and
    bound: "k \<le> card {n. collectionExists cat (Str n)}" by blast
  have "getAutomaticJunctionCollectionName cat a b = Some (getName a b k)"
    unfolding getAutomaticJunctionCollectionName_def
    by (rule junctionNameLoop_reaches [OF free taken]) simp
  with bound show ?thesis by blast
qed

theorem junction_name_terminates_within_catalog_size_witness:
  "finite {n. collectionExists (catalogOfTables [(''articles_tags'', [])] []) (Str n)}
   \<and> (\<exists>k. getAutomaticJunctionCollectionName (catalogOfTables [(''articles_tags'', [])] [])
              (Str ''articles'') (Str ''tags'')
            = Some (getName (Str ''articles'') (Str ''tags'') k)
          \<and> k \<le> card {n. collectionExists (catalogOfTables [(''articles_tags'', [])] []) (Str n)})"
proof -
  have fin: "finite {n. collectionExists (catalogOfTables [(''articles_tags'', [])] []) (Str n)}"
    by (rule finite_catalogOfTables)
  from junction_name_terminates_within_catalog_size [OF fin] fin show ?thesis by blast
qed

text \<open>
  The claim that the number of suffix attempts is capped fails: whatever the cap, the
  catalog made of the first \<open>cap + 1\<close> candidates makes the helper return the candidate with
  suffix \<open>cap + 1\<close>.
\<close>

lemma no_cap_at: 
  "getAutomaticJunctionCollectionName (catalogOfTables (candidateTables cap) []) (Str ''a'') (Str ''b'')
   = Some (getName (Str ''a'') (Str ''b'') (Suc cap))"
proof -
  let ?cat = "catalogOfTables (candidateTables cap) []"
  have ex: "collectionExists ?cat (Str (getName (Str ''a'') (Str ''b'') j)) = (j \<le> cap)" for j
  proof -
    have names: "fst ` set (candidateTables cap) = getName (Str ''a'') (Str ''b'') ` {j. j \<le> cap}"
      by (force simp: candidateTables_def image_iff)
    have "inj (getName (Str ''a'') (Str ''b''))"
      by (rule injI) (rule getName_inj)
    then have "(getName (Str ''a'') (Str ''b'') j \<in> getName (Str ''a'') (Str ''b'') ` {j. j \<le> cap})
               = (j \<in> {j. j \<le> cap})"
      by (rule inj_image_mem_iff)
    then show ?thesis
      by (simp only: collectionExists_catalogOfTables names mem_Collect_eq)
  qed
  show ?thesis
    unfolding getAutomaticJunctionCollectionName_def
    by (rule junctionNameLoop_reaches) (auto simp: ex)
qed

theorem junction_name_no_cap:
  "\<not> (\<exists>cap. \<forall>cat a b. finite {n. collectionExists cat (Str n)} \<longrightarrow>
          (\<exists>k\<le>cap. getAutomaticJunctionCollectionName cat a b = Some (getName a b k)))"
proof
  assume "\<exists>cap. \<forall>cat a b. finite {n. collectionExists cat (Str n)} \<longrightarrow>
          (\<exists>k\<le>cap. getAutomaticJunctionCollectionName cat a b = Some (getName a b k))"
  then obtain cap where cap: "\<forall>cat a b. finite {n. collectionExists cat (Str n)} \<longrightarrow>
          (\<exists>k\<le>cap. getAutomaticJunctionCollectionName cat a b = Some (getName a b k))" ..
  let ?cat = "catalogOfTables (candidateTables cap) []"
  from cap finite_catalogOfTables [of "candidateTables cap" "[]"]
  obtain k where "k \<le> cap" and
    "getAutomaticJunctionCollectionName ?cat (Str ''a'') (Str ''b'') = Some (getName (Str ''a'') (Str ''b'') k)"
    by blast
  with no_cap_at [of cap] have "getName (Str ''a'') (Str ''b'') (Suc cap) = getName (Str ''a'') (Str ''b'') k"
    by simp
  then have "Suc cap = k" by (rule getName_inj)
  with \<open>k \<le> cap\<close> show False by simp
qed

section \<open>Evaluation rules\<close>

lemmas literal_defs =
  emptySchema_def emptyMeta_def emptyField_def emptyRelationMeta_def emptyRelation_def
  emptyCollection_def orEmptyMeta_def orEmptyRelationMeta_def initialState_def

lemmas init_defs =
  initLocalStore_def useFile_def useM2O_def useO2M_def useM2M_def useM2A_def usePresentation_def
  translationsDefaults_def m2aAutoFillRule_def deleteSchemaAndType_def setSpecial_def Let_def

lemmas catalog_defs =
  catalogOfTables_def storedField_def collectionExists_def fieldExists_def primaryKeyType_def

lemmas session_defs =
  startSession_def flushNewTranslations_def onState_def thenRun_def keepFirst_def
  syncWatcherM2M_def syncSourcesM2M_def throttledSyncM2M_def invokeSyncM2M_def
  junctionFieldRule0_def junctionFieldRule1_def m2mTranslationsRule_def m2mFieldNameRule_def

lemma push_simps [simp]:
  "newFields (pushField f st) = newFields st @ [f]"
  "newCollections (pushField f st) = newCollections st"
  "newRows (pushField f st) = newRows st"
  "relations (pushField f st) = relations st"
  "fieldData (pushField f st) = fieldData st"
  "autoFillJunctionRelation (pushField f st) = autoFillJunctionRelation st"
  "newFields (pushCollection c st) = newFields st"
  "newCollections (pushCollection c st) = newCollections st @ [c]"
  "newRows (pushCollection c st) = newRows st"
  "relations (pushCollection c st) = relations st"
  "fieldData (pushCollection c st) = fieldData st"
  "autoFillJunctionRelation (pushCollection c st) = autoFillJunctionRelation st"
  by (simp_all add: pushField_def pushCollection_def)

lemma junction_name_returns:
  assumes "finite {n. collectionExists cat (Str n)}"
  shows "\<exists>name. getAutomaticJunctionCollectionName cat a b = Some name"
proof -
  from first_free_candidate [OF assms, of a b] obtain k where
    free: "\<not> collectionExists cat (Str (getName a b k))" and
    taken: "\<forall>j<k. collectionExists cat (Str (getName a b j))" by blast
  have "getAutomaticJunctionCollectionName cat a b = Some (getName a b k)"
    unfolding getAutomaticJunctionCollectionName_def
    by (rule junctionNameLoop_reaches [OF free taken]) simp
  then show ?thesis ..
qed

lemma blogCatalog_exists:
  "collectionExists blogCatalog (Str n) = (n = ''articles'' \<or> n = ''tags'')"
  by (auto simp: blogCatalog_def collectionExists_catalogOfTables)

lemma blogCatalog_finite: "finite {n. collectionExists blogCatalog (Str n)}"
  unfolding blogCatalog_def by (rule finite_catalogOfTables)

lemma blogCatalog_junction_name:
  "getAutomaticJunctionCollectionName blogCatalog (Str ''articles'') (Str ''tags'')
   = Some ''articles_tags''"
  unfolding getAutomaticJunctionCollectionName_def
  by (subst junctionNameLoop.simps) (simp add: getName_def blogCatalog_exists)

section \<open>Many-to-one type propagation\<close>

text \<open>
  C3. After the rule on \<^verbatim>\<open>relations[0].related_collection\<close> of the many-to-one strategy has
  run: if the related collection is a non-empty name that exists in the catalog, the field
  type is the type of that collection's primary-key field; if the related collection is
  empty or does not exist, the field type is \<open>integer\<close>. Nothing else in the state changes.
\<close>

theorem m2o_type_follows_primary_key:
  assumes "relations st = r0 # rs"
  shows "(related_collection r0 = Str name \<and> name \<noteq> [] \<and> collectionExists cat (Str name)
          \<and> getPrimaryKeyFieldForCollection cat name = Some pk
          \<longrightarrow> m2oTypeRule cat st
              = (None, st\<lparr>fieldData := (fieldData st)\<lparr>field.type := field.type pk\<rparr>\<rparr>))
       \<and> (related_collection r0 = Str [] \<or> \<not> collectionExists cat (related_collection r0)
          \<longrightarrow> m2oTypeRule cat st
              = (None, st\<lparr>fieldData := (fieldData st)\<lparr>field.type := Str ''integer''\<rparr>\<rparr>))"
  using assms by (auto simp: m2oTypeRule_def)

theorem m2o_type_follows_primary_key_witness:
  "(\<exists>r0. relations (m2oPicked ''tags'') = [r0]
        \<and> related_collection r0 = Str ''tags''
        \<and> collectionExists blogCatalog (Str ''tags'')
        \<and> getPrimaryKeyFieldForCollection blogCatalog ''tags''
            = Some (storedField ''tags'' (''id'', ''uuid'')))
   \<and> field.type (fieldData (snd (m2oTypeRule blogCatalog (m2oPicked ''tags'')))) = Str ''uuid''
   \<and> (\<exists>r0. relations (m2oPicked ''ghosts'') = [r0]
        \<and> \<not> collectionExists blogCatalog (related_collection r0))
   \<and> field.type (fieldData (snd (m2oTypeRule blogCatalog (m2oPicked ''ghosts'')))) = Str ''integer''"
proof -
  define r where "r = (\<lambda>target. emptyRelation\<lparr>relation.collection := Str ''articles'',
                                     relation.field := Str ''tag'',
                                     related_collection := Str target\<rparr>)"
  have rel: "relations (m2oPicked target) = r target # []" for target
    by (simp add: m2oPicked_def r_def)
  have related: "related_collection (r target) = Str target" for target
    by (simp add: r_def)
  have pk: "getPrimaryKeyFieldForCollection blogCatalog ''tags''
            = Some (storedField ''tags'' (''id'', ''uuid''))"
    by (simp add: blogCatalog_def catalogOfTables_def)
  have ex: "collectionExists blogCatalog (Str ''tags'')"
    and nex: "\<not> collectionExists blogCatalog (related_collection (r ''ghosts''))"
    by (simp_all add: blogCatalog_exists related)
  from m2o_type_follows_primary_key [OF rel, of "''tags''" "''tags''" blogCatalog] related ex pk
  have "field.type (fieldData (snd (m2oTypeRule blogCatalog (m2oPicked ''tags'')))) = Str ''uuid''"
    by (simp add: storedField_def)
  moreover
  from m2o_type_follows_primary_key [OF rel, of "''ghosts''" _ blogCatalog] nex
  have "field.type (fieldData (snd (m2oTypeRule blogCatalog (m2oPicked ''ghosts'')))) = Str ''integer''"
    by simp
  ultimately show ?thesis
    using rel related ex nex pk by simp
qed

section \<open>Many-to-any auto-fill\<close>

text \<open>
  C10. A new many-to-any session: \<^verbatim>\<open>initLocalStore\<close> returns with two relation records; the
  first one has no \<^verbatim>\<open>one_primary\<close>, and its auto-filled \<^verbatim>\<open>field\<close>, the interpolation of
  \<^verbatim>\<open>related_collection\<close> and \<^verbatim>\<open>one_primary\<close>, is the parent collection name followed by
  \<open>_undefined\<close>, whatever the catalog says about the parent's primary key.
\<close>

theorem m2a_autofill_field_undefined_suffix:
  "\<exists>st r0 r1. initLocalStore cat c ''+'' ''m2a'' = (None, st)
     \<and> relations st = [r0, r1]
     \<and> one_primary r0 = Undefined
     \<and> relation.field r0 = Str (toStr (related_collection r0) @ ''_'' @ toStr (one_primary r0))
     \<and> relation.field r0 = Str (c @ ''_undefined'')"
  by (simp add: init_defs literal_defs)

theorem m2a_autofill_field_undefined_suffix_witness:
  "map relation.field (relations (snd (initLocalStore blogCatalog ''articles'' ''+'' ''m2a'')))
   = [Str ''articles_undefined'', Str ''item'']
   \<and> getPrimaryKeyFieldForCollection blogCatalog ''articles''
      = Some (storedField ''articles'' (''id'', ''integer''))"
proof -
  from m2a_autofill_field_undefined_suffix [of blogCatalog "''articles''"]
  obtain st r0 r1 where
    "initLocalStore blogCatalog ''articles'' ''+'' ''m2a'' = (None, st)"
    "relations st = [r0, r1]" "relation.field r0 = Str (''articles'' @ ''_undefined'')"
    by blast
  moreover have "relation.field (relations (snd (initLocalStore blogCatalog ''articles'' ''+'' ''m2a'')) ! 1)
                 = Str ''item''"
    by (simp add: init_defs literal_defs)
  ultimately show ?thesis
    by (simp add: blogCatalog_def catalogOfTables_def)
qed

text \<open>No rule of the many-to-any strategy writes \<^verbatim>\<open>one_primary\<close>.\<close>

lemma m2a_rules_keep_one_primary:
  "map one_primary (relations (snd (m2aAutoFillRule st))) = map one_primary (relations st)"
  "map one_primary (relations (snd (m2aFieldNameRule st))) = map one_primary (relations st)"
  "map one_primary (relations (snd (junctionFieldRule0 st))) = map one_primary (relations st)"
  "map one_primary (relations (snd (junctionFieldRule1 st))) = map one_primary (relations st)"
  by (simp_all add: m2aAutoFillRule_def m2aFieldNameRule_def junctionFieldRule0_def
      junctionFieldRule1_def Let_def split: list.splits)

section \<open>Idempotence of the derived-list rules\<close>

text \<open>
  What a pass leaves in each list: the entries it does not own, in their old order, followed
  by the entries it adds, which depend on the catalog and the arguments only.
\<close>

lemma count_le_one:
  assumes "\<And>x. g x = t \<Longrightarrow> \<not> P x" and "distinct (map g ys)"
  shows "length (filter (\<lambda>x. g x = t) (filter P xs @ ys)) \<le> 1"
proof -
  have "filter (\<lambda>x. g x = t) (filter P xs) = []"
    using assms(1) by (induction xs) auto
  moreover have "length (filter (\<lambda>x. g x = t) ys) \<le> 1"
    using assms(2) by (induction ys) (auto simp: filter_empty_conv image_iff)
  ultimately show ?thesis by simp
qed

lemma o2m_error: "fst (syncNewCollectionsO2M cat args st) = None"
  by (simp add: syncNewCollectionsO2M_def Let_def split: prod.splits)

lemma o2m_newCollections:
  "newCollections (snd (syncNewCollectionsO2M cat (c, f, s) st))
   = filter (\<lambda>col. collection.dollar_type col \<notin> set [Str ''related'']) (newCollections st)
     @ (if \<not> collectionExists cat c then [relatedDraftO2M c] else [])"
  by (simp add: syncNewCollectionsO2M_def Let_def)

lemma o2m_newFields:
  "newFields (snd (syncNewCollectionsO2M cat (c, f, s) st))
   = filter (\<lambda>x. field.dollar_type x \<notin> set [Str ''manyRelated'', Str ''sort'']) (newFields st)
     @ (if \<not> fieldExists cat c f
        then [manyRelatedO2M c f (if collectionExists cat c then primaryKeyType cat c else Str ''integer'')]
        else [])
     @ (if truthy s \<and> \<not> fieldExists cat c s then [hiddenField ''sort'' c s (Str ''integer'')] else [])"
  by (simp add: syncNewCollectionsO2M_def Let_def)

lemma o2m_newRows:
  "newRows (snd (syncNewCollectionsO2M cat (c, f, s) st)) = newRows st"
  by (simp add: syncNewCollectionsO2M_def Let_def)

lemma o2m_idempotent:
  "sameDerivedLists (snd (syncNewCollectionsO2M cat args (snd (syncNewCollectionsO2M cat args st))))
     (snd (syncNewCollectionsO2M cat args st))"
proof -
  obtain c f s where args: "args = (c, f, s)" by (cases args)
  show ?thesis
    unfolding args sameDerivedLists_def
    by (simp add: o2m_newCollections o2m_newFields o2m_newRows relatedDraftO2M_def
        manyRelatedO2M_def hiddenField_def)
qed

lemma o2m_counts:
  "countCollections ''related'' (snd (syncNewCollectionsO2M cat args st)) \<le> 1
   \<and> countFields ''manyRelated'' (snd (syncNewCollectionsO2M cat args st)) \<le> 1
   \<and> countFields ''sort'' (snd (syncNewCollectionsO2M cat args st)) \<le> 1"
proof -
  obtain c f s where args: "args = (c, f, s)" by (cases args)
  have cs: "countCollections t (snd (syncNewCollectionsO2M cat args st)) \<le> 1"
    if "t \<in> {''related''}" for t
    using that unfolding args countCollections_def o2m_newCollections
    by (intro count_le_one) (auto simp: relatedDraftO2M_def)
  have fs: "countFields t (snd (syncNewCollectionsO2M cat args st)) \<le> 1"
    if "t \<in> {''manyRelated'', ''sort''}" for t
    using that unfolding args countFields_def o2m_newFields
    by (intro count_le_one) (auto simp: manyRelatedO2M_def hiddenField_def)
  show ?thesis
    by (intro conjI cs fs) simp_all
qed

lemma m2m_from420_newFields:
  "newFields (syncNewCollectionsM2M_from420 cat lt (j, mc, mr, rc, s) st)
   = newFields st
     @ (if \<not> fieldExists cat j mr
        then [hiddenField ''manyRelated'' j mr
                (if collectionExists cat rc then primaryKeyType cat rc
                 else if lt = ''translations'' then Str ''string'' else Str ''integer'')]
        else [])
     @ (if truthy s \<and> \<not> fieldExists cat j s then [hiddenField ''sort'' j s (Str ''integer'')] else [])"
  by (simp add: syncNewCollectionsM2M_from420_def Let_def)

lemma m2m_from420_newCollections:
  "newCollections (syncNewCollectionsM2M_from420 cat lt (j, mc, mr, rc, s) st)
   = newCollections st
     @ (if \<not> collectionExists cat rc
        then [if lt = ''translations'' then relatedDraftTranslations rc else relatedDraftM2M rc]
        else [])"
  by (simp add: syncNewCollectionsM2M_from420_def Let_def)

lemma m2m_from420_newRows:
  "newRows (syncNewCollectionsM2M_from420 cat lt (j, mc, mr, rc, s) st)
   = (if lt = ''translations''
      then (if \<not> collectionExists cat rc then [(toStr rc, starterLanguages)] else [])
      else newRows st)"
  by (simp add: syncNewCollectionsM2M_from420_def Let_def)

lemma m2m_from420_frame:
  "relations (syncNewCollectionsM2M_from420 cat lt args st) = relations st
   \<and> autoFillJunctionRelation (syncNewCollectionsM2M_from420 cat lt args st)
       = autoFillJunctionRelation st
   \<and> fieldData (syncNewCollectionsM2M_from420 cat lt args st) = fieldData st"
  by (cases args) (simp add: syncNewCollectionsM2M_from420_def Let_def)

lemma m2m_sync_frame:
  "relations (snd (syncNewCollectionsM2M cat pc lt args st)) = relations st
   \<and> autoFillJunctionRelation (snd (syncNewCollectionsM2M cat pc lt args st))
       = autoFillJunctionRelation st
   \<and> fieldData (snd (syncNewCollectionsM2M cat pc lt args st)) = fieldData st"
  by (cases args)
     (simp add: syncNewCollectionsM2M_def m2m_from420_frame Let_def split: option.splits)

lemma m2m_error:
  "fst (syncNewCollectionsM2M cat pc lt (j, mc, mr, rc, s) st)
   = (if \<not> fieldExists cat j mc \<and> getPrimaryKeyFieldForCollection cat pc = None
      then Some TypeError else None)"
  by (simp add: syncNewCollectionsM2M_def Let_def split: option.splits)

lemma m2m_newCollections:
  "newCollections (snd (syncNewCollectionsM2M cat pc lt (j, mc, mr, rc, s) st))
   = filter (\<lambda>col. collection.dollar_type col \<notin> set [Str ''junction'', Str ''related''])
       (newCollections st)
     @ (if \<not> collectionExists cat j then [junctionDraft j] else [])
     @ (if \<not> fieldExists cat j mc \<and> getPrimaryKeyFieldForCollection cat pc = None then []
        else if \<not> collectionExists cat rc
        then [if lt = ''translations'' then relatedDraftTranslations rc else relatedDraftM2M rc]
        else [])"
  by (simp add: syncNewCollectionsM2M_def Let_def m2m_from420_newCollections split: option.splits)

lemma m2m_newFields:
  "newFields (snd (syncNewCollectionsM2M cat pc lt (j, mc, mr, rc, s) st))
   = filter (\<lambda>x. field.dollar_type x \<notin> set [Str ''manyCurrent'', Str ''manyRelated'', Str ''sort''])
       (newFields st)
     @ (case getPrimaryKeyFieldForCollection cat pc of
          None \<Rightarrow> []
        | Some pk \<Rightarrow>
            if \<not> fieldExists cat j mc then [hiddenField ''manyCurrent'' j mc (field.type pk)] else [])
     @ (if \<not> fieldExists cat j mc \<and> getPrimaryKeyFieldForCollection cat pc = None then []
        else (if \<not> fieldExists cat j mr
              then [hiddenField ''manyRelated'' j mr
                      (if collectionExists cat rc then primaryKeyType cat rc
                       else if lt = ''translations'' then Str ''string'' else Str ''integer'')]
              else [])
             @ (if truthy s \<and> \<not> fieldExists cat j s
                then [hiddenField ''sort'' j s (Str ''integer'')] else []))"
  by (simp add: syncNewCollectionsM2M_def Let_def m2m_from420_newFields split: option.splits)

lemma m2m_newRows:
  "newRows (snd (syncNewCollectionsM2M cat pc lt (j, mc, mr, rc, s) st))
   = (if \<not> fieldExists cat j mc \<and> getPrimaryKeyFieldForCollection cat pc = None then newRows st
      else if lt = ''translations''
      then (if \<not> collectionExists cat rc then [(toStr rc, starterLanguages)] else [])
      else newRows st)"
  by (simp add: syncNewCollectionsM2M_def Let_def m2m_from420_newRows split: option.splits)

lemma m2m_idempotent:
  "sameDerivedLists
     (snd (syncNewCollectionsM2M cat pc lt args (snd (syncNewCollectionsM2M cat pc lt args st))))
     (snd (syncNewCollectionsM2M cat pc lt args st))"
proof -
  obtain j mc mr rc s where args: "args = (j, mc, mr, rc, s)" by (cases args)
  show ?thesis
    unfolding args sameDerivedLists_def
    by (simp add: m2m_newCollections m2m_newFields m2m_newRows junctionDraft_def
        relatedDraftM2M_def relatedDraftTranslations_def hiddenField_def split: option.splits)
qed

lemma m2m_counts:
  "countCollections ''junction'' (snd (syncNewCollectionsM2M cat pc lt args st)) \<le> 1
   \<and> countCollections ''related'' (snd (syncNewCollectionsM2M cat pc lt args st)) \<le> 1
   \<and> countFields ''manyCurrent'' (snd (syncNewCollectionsM2M cat pc lt args st)) \<le> 1
   \<and> countFields ''manyRelated'' (snd (syncNewCollectionsM2M cat pc lt args st)) \<le> 1
   \<and> countFields ''sort'' (snd (syncNewCollectionsM2M cat pc lt args st)) \<le> 1"
proof -
  obtain j mc mr rc s where args: "args = (j, mc, mr, rc, s)" by (cases args)
  have cs: "countCollections t (snd (syncNewCollectionsM2M cat pc lt args st)) \<le> 1"
    if "t \<in> {''junction'', ''related''}" for t
    using that unfolding args countCollections_def m2m_newCollections
    by (intro count_le_one)
       (auto simp: junctionDraft_def relatedDraftM2M_def relatedDraftTranslations_def)
  have fs: "countFields t (snd (syncNewCollectionsM2M cat pc lt args st)) \<le> 1"
    if "t \<in> {''manyCurrent'', ''manyRelated'', ''sort''}" for t
    using that unfolding args countFields_def m2m_newFields
    by (intro count_le_one) (auto simp: hiddenField_def split: option.splits)
  show ?thesis
    by (intro conjI cs fs) simp_all
qed

lemma m2a_from771_newFields:
  "newFields (syncNewCollectionsM2A_from771 cat (j, mc, mr, ocf, s) st)
   = newFields st
     @ (if \<not> fieldExists cat j mr then [hiddenField ''manyRelated'' j mr (Str ''string'')] else [])
     @ (if \<not> fieldExists cat j ocf then [hiddenField ''collectionField'' j ocf (Str ''string'')] else [])
     @ (if truthy s \<and> \<not> fieldExists cat j s then [hiddenField ''sort'' j s (Str ''integer'')] else [])"
  by (simp add: syncNewCollectionsM2A_from771_def Let_def)

lemma m2a_from771_others:
  "newCollections (syncNewCollectionsM2A_from771 cat (j, mc, mr, ocf, s) st) = newCollections st"
  "newRows (syncNewCollectionsM2A_from771 cat (j, mc, mr, ocf, s) st) = newRows st"
  by (simp_all add: syncNewCollectionsM2A_from771_def Let_def)

lemma m2a_error:
  "fst (syncNewCollectionsM2A cat pc (j, mc, mr, ocf, s) st)
   = (if \<not> fieldExists cat j mc \<and> getPrimaryKeyFieldForCollection cat pc = None
      then Some TypeError else None)"
  by (simp add: syncNewCollectionsM2A_def Let_def split: option.splits)

lemma m2a_newCollections:
  "newCollections (snd (syncNewCollectionsM2A cat pc (j, mc, mr, ocf, s) st))
   = filter (\<lambda>col. collection.dollar_type col \<notin> set [Str ''junction'', Str ''related''])
       (newCollections st)
     @ (if \<not> collectionExists cat j then [junctionDraft j] else [])"
  by (simp add: syncNewCollectionsM2A_def Let_def m2a_from771_others split: option.splits)

lemma m2a_newFields:
  "newFields (snd (syncNewCollectionsM2A cat pc (j, mc, mr, ocf, s) st))
   = filter (\<lambda>x. field.dollar_type x
                   \<notin> set [Str ''manyCurrent'', Str ''manyRelated'', Str ''collectionField'', Str ''sort''])
       (newFields st)
     @ (case getPrimaryKeyFieldForCollection cat pc of
          None \<Rightarrow> []
        | Some pk \<Rightarrow>
            if \<not> fieldExists cat j mc then [hiddenField ''manyCurrent'' j mc (field.type pk)] else [])
     @ (if \<not> fieldExists cat j mc \<and> getPrimaryKeyFieldForCollection cat pc = None then []
        else (if \<not> fieldExists cat j mr then [hiddenField ''manyRelated'' j mr (Str ''string'')] else [])
             @ (if \<not> fieldExists cat j ocf
                then [hiddenField ''collectionField'' j ocf (Str ''string'')] else [])
             @ (if truthy s \<and> \<not> fieldExists cat j s
                then [hiddenField ''sort'' j s (Str ''integer'')] else []))"
  by (simp add: syncNewCollectionsM2A_def Let_def m2a_from771_newFields split: option.splits)

lemma m2a_newRows:
  "newRows (snd (syncNewCollectionsM2A cat pc (j, mc, mr, ocf, s) st)) = newRows st"
  by (simp add: syncNewCollectionsM2A_def Let_def m2a_from771_others split: option.splits)

lemma m2a_idempotent:
  "sameDerivedLists
     (snd (syncNewCollectionsM2A cat pc args (snd (syncNewCollectionsM2A cat pc args st))))
     (snd (syncNewCollectionsM2A cat pc args st))"
proof -
  obtain j mc mr ocf s where args: "args = (j, mc, mr, ocf, s)" by (cases args)
  show ?thesis
    unfolding args sameDerivedLists_def
    by (simp add: m2a_newCollections m2a_newFields m2a_newRows junctionDraft_def
        hiddenField_def split: option.splits)
qed

lemma m2a_counts:
  "countCollections ''junction'' (snd (syncNewCollectionsM2A cat pc args st)) \<le> 1
   \<and> countCollections ''related'' (snd (syncNewCollectionsM2A cat pc args st)) \<le> 1
   \<and> countFields ''manyCurrent'' (snd (syncNewCollectionsM2A cat pc args st)) \<le> 1
   \<and> countFields ''manyRelated'' (snd (syncNewCollectionsM2A cat pc args st)) \<le> 1
   \<and> countFields ''collectionField'' (snd (syncNewCollectionsM2A cat pc args st)) \<le> 1
   \<and> countFields ''sort'' (snd (syncNewCollectionsM2A cat pc args st)) \<le> 1"
proof -
  obtain j mc mr ocf s where args: "args = (j, mc, mr, ocf, s)" by (cases args)
  have cs: "countCollections t (snd (syncNewCollectionsM2A cat pc args st)) \<le> 1"
    if "t \<in> {''junction'', ''related''}" for t
    using that unfolding args countCollections_def m2a_newCollections
    by (intro count_le_one) (auto simp: junctionDraft_def)
  have fs: "countFields t (snd (syncNewCollectionsM2A cat pc args st)) \<le> 1"
    if "t \<in> {''manyCurrent'', ''manyRelated'', ''collectionField'', ''sort''}" for t
    using that unfolding args countFields_def m2a_newFields
    by (intro count_le_one) (auto simp: hiddenField_def split: option.splits)
  show ?thesis
    by (intro conjI cs fs) simp_all
qed

lemma sync_error_stable:
  "fst (syncNewCollectionsO2M cat argsO (snd (syncNewCollectionsO2M cat argsO st)))
     = fst (syncNewCollectionsO2M cat argsO st)"
  "fst (syncNewCollectionsM2M cat pc lt argsM (snd (syncNewCollectionsM2M cat pc lt argsM st)))
     = fst (syncNewCollectionsM2M cat pc lt argsM st)"
  "fst (syncNewCollectionsM2A cat pc argsA (snd (syncNewCollectionsM2A cat pc argsA st)))
     = fst (syncNewCollectionsM2A cat pc argsA st)"
proof -
  show "fst (syncNewCollectionsO2M cat argsO (snd (syncNewCollectionsO2M cat argsO st)))
     = fst (syncNewCollectionsO2M cat argsO st)"
    by (simp add: o2m_error)
  obtain j mc mr rc s where argsM: "argsM = (j, mc, mr, rc, s)" by (cases argsM)
  show "fst (syncNewCollectionsM2M cat pc lt argsM (snd (syncNewCollectionsM2M cat pc lt argsM st)))
     = fst (syncNewCollectionsM2M cat pc lt argsM st)"
    unfolding argsM by (simp add: m2m_error)
  obtain j' mc' mr' ocf s' where argsA: "argsA = (j', mc', mr', ocf, s')" by (cases argsA)
  show "fst (syncNewCollectionsM2A cat pc argsA (snd (syncNewCollectionsM2A cat pc argsA st)))
     = fst (syncNewCollectionsM2A cat pc argsA st)"
    unfolding argsA by (simp add: m2a_error)
qed

text \<open>
  C6. For each of the three sync rules, a second pass with the same arguments and the same
  catalog leaves \<^verbatim>\<open>newCollections\<close>, \<^verbatim>\<open>newFields\<close> and \<^verbatim>\<open>newRows\<close> exactly as the first
  pass left them (same entries, same order) and ends the same way, and after a pass each
  \<^verbatim>\<open>$type\<close> tag the rule owns occurs at most once in its list.
\<close>

theorem sync_rules_idempotent:
  "sameDerivedLists
     (snd (syncNewCollectionsO2M cat argsO (snd (syncNewCollectionsO2M cat argsO st))))
     (snd (syncNewCollectionsO2M cat argsO st))
   \<and> fst (syncNewCollectionsO2M cat argsO (snd (syncNewCollectionsO2M cat argsO st)))
      = fst (syncNewCollectionsO2M cat argsO st)
   \<and> countCollections ''related'' (snd (syncNewCollectionsO2M cat argsO st)) \<le> 1
   \<and> countFields ''manyRelated'' (snd (syncNewCollectionsO2M cat argsO st)) \<le> 1
   \<and> countFields ''sort'' (snd (syncNewCollectionsO2M cat argsO st)) \<le> 1
   \<and> sameDerivedLists
       (snd (syncNewCollectionsM2M cat pc lt argsM (snd (syncNewCollectionsM2M cat pc lt argsM st))))
       (snd (syncNewCollectionsM2M cat pc lt argsM st))
   \<and> fst (syncNewCollectionsM2M cat pc lt argsM (snd (syncNewCollectionsM2M cat pc lt argsM st)))
      = fst (syncNewCollectionsM2M cat pc lt argsM st)
   \<and> countCollections ''junction'' (snd (syncNewCollectionsM2M cat pc lt argsM st)) \<le> 1
   \<and> countCollections ''related'' (snd (syncNewCollectionsM2M cat pc lt argsM st)) \<le> 1
   \<and> countFields ''manyCurrent'' (snd (syncNewCollectionsM2M cat pc lt argsM st)) \<le> 1
   \<and> countFields ''manyRelated'' (snd (syncNewCollectionsM2M cat pc lt argsM st)) \<le> 1
   \<and> countFields ''sort'' (snd (syncNewCollectionsM2M cat pc lt argsM st)) \<le> 1
   \<and> sameDerivedLists
       (snd (syncNewCollectionsM2A cat pc argsA (snd (syncNewCollectionsM2A cat pc argsA st))))
       (snd (syncNewCollectionsM2A cat pc argsA st))
   \<and> fst (syncNewCollectionsM2A cat pc argsA (snd (syncNewCollectionsM2A cat pc argsA st)))
      = fst (syncNewCollectionsM2A cat pc argsA st)
   \<and> countCollections ''junction'' (snd (syncNewCollectionsM2A cat pc argsA st)) \<le> 1
   \<and> countCollections ''related'' (snd (syncNewCollectionsM2A cat pc argsA st)) \<le> 1
   \<and> countFields ''manyCurrent'' (snd (syncNewCollectionsM2A cat pc argsA st)) \<le> 1
   \<and> countFields ''manyRelated'' (snd (syncNewCollectionsM2A cat pc argsA st)) \<le> 1
   \<and> countFields ''collectionField'' (snd (syncNewCollectionsM2A cat pc argsA st)) \<le> 1
   \<and> countFields ''sort'' (snd (syncNewCollectionsM2A cat pc argsA st)) \<le> 1"
  using o2m_idempotent [of cat argsO st] o2m_counts [of cat argsO st]
    m2m_idempotent [of cat pc lt argsM st] m2m_counts [of cat pc lt argsM st]
    m2a_idempotent [of cat pc argsA st] m2a_counts [of cat pc argsA st]
    sync_error_stable(1) [of cat argsO st] sync_error_stable(2) [of cat pc lt argsM st]
    sync_error_stable(3) [of cat pc argsA st]
  by blast

theorem sync_rules_idempotent_witness:
  "sameDerivedLists
     (snd (syncNewCollectionsM2M blogCatalog ''articles'' ''m2m''
             (Str ''articles_tags'', Str ''articles_id'', Str ''tags_id'', Str ''tags'', Null)
             (snd (syncNewCollectionsM2M blogCatalog ''articles'' ''m2m''
                     (Str ''articles_tags'', Str ''articles_id'', Str ''tags_id'', Str ''tags'', Null)
                     initialState))))
     (snd (syncNewCollectionsM2M blogCatalog ''articles'' ''m2m''
             (Str ''articles_tags'', Str ''articles_id'', Str ''tags_id'', Str ''tags'', Null)
             initialState))
   \<and> map collection.dollar_type
         (newCollections
            (snd (syncNewCollectionsM2M blogCatalog ''articles'' ''m2m''
                    (Str ''articles_tags'', Str ''articles_id'', Str ''tags_id'', Str ''tags'', Null)
                    initialState)))
       = [Str ''junction'']
   \<and> map field.dollar_type
         (newFields
            (snd (syncNewCollectionsM2M blogCatalog ''articles'' ''m2m''
                    (Str ''articles_tags'', Str ''articles_id'', Str ''tags_id'', Str ''tags'', Null)
                    initialState)))
       = [Str ''manyCurrent'', Str ''manyRelated'']"
proof -
  have pk: "getPrimaryKeyFieldForCollection blogCatalog ''articles''
            = Some (storedField ''articles'' (''id'', ''integer''))"
    by (simp add: blogCatalog_def catalogOfTables_def)
  have lists:
    "map collection.dollar_type
       (newCollections
          (snd (syncNewCollectionsM2M blogCatalog ''articles'' ''m2m''
                  (Str ''articles_tags'', Str ''articles_id'', Str ''tags_id'', Str ''tags'', Null)
                  initialState)))
     = [Str ''junction'']"
    "map field.dollar_type
       (newFields
          (snd (syncNewCollectionsM2M blogCatalog ''articles'' ''m2m''
                  (Str ''articles_tags'', Str ''articles_id'', Str ''tags_id'', Str ''tags'', Null)
                  initialState)))
     = [Str ''manyCurrent'', Str ''manyRelated'']"
    by (simp_all add: m2m_newCollections m2m_newFields pk blogCatalog_exists fieldExists_def
        initialState_def junctionDraft_def hiddenField_def)
  from sync_rules_idempotent
         [where cat = blogCatalog and pc = "''articles''" and lt = "''m2m''" and st = initialState
          and argsM = "(Str ''articles_tags'', Str ''articles_id'', Str ''tags_id'', Str ''tags'', Null)"]
    lists
  show ?thesis by blast
qed

section \<open>Junction field names\<close>

text \<open>
  C5 (as the code has it). In the many-to-many strategy, with at least two relation records
  and a finite catalog: when the rule on the field name auto-names the junction (the name is
  non-empty, names an existing collection, and the category is not translations), the first
  junction field becomes \<open><related0>_id\<close> and the second \<open><name>_id\<close>, or
  \<open><name>_related_id\<close> if the two would be identical, and after the rule the two names
  differ; and when the auto-fill rule runs while the two names are strictly equal, it sets the
  second to \<open><related1>_related_id\<close> and leaves the first.
\<close>

theorem m2m_rename_on_equal_names:
  assumes rel: "relations st = r0 # r1 # rs"
    and fin: "finite {n. collectionExists cat (Str n)}"
  shows "(field.field (fieldData st) = Str f \<and> f \<noteq> [] \<and> collectionExists cat (Str f)
            \<and> localType \<noteq> ''translations''
          \<longrightarrow> (\<exists>st' r0' r1'.
                 m2mFieldNameRule cat localType st = Some (None, st')
               \<and> relations st' = r0' # r1' # rs
               \<and> relation.field r0' = Str (toStr (related_collection r0) @ ''_id'')
               \<and> relation.field r1' = (if toStr (related_collection r0) = f
                                        then Str (f @ ''_related_id'') else Str (f @ ''_id''))
               \<and> relation.field r0' \<noteq> relation.field r1'))
       \<and> (strictEq (relation.field r0) (relation.field r1)
          \<longrightarrow> (\<exists>st' r0' r1'.
                 m2mAutoFillRule cat v st = Some (None, st')
               \<and> relations st' = r0' # r1' # rs
               \<and> relation.field r0' = relation.field r0
               \<and> relation.field r1' = Str (toStr (related_collection r1) @ ''_related_id'')))"
proof (intro conjI impI)
  assume a: "field.field (fieldData st) = Str f \<and> f \<noteq> [] \<and> collectionExists cat (Str f)
            \<and> localType \<noteq> ''translations''"
  obtain name where name:
    "getAutomaticJunctionCollectionName cat (related_collection r0) (related_collection r1)
     = Some name"
    using junction_name_returns [OF fin] by blast
  show "\<exists>st' r0' r1'.
                 m2mFieldNameRule cat localType st = Some (None, st')
               \<and> relations st' = r0' # r1' # rs
               \<and> relation.field r0' = Str (toStr (related_collection r0) @ ''_id'')
               \<and> relation.field r1' = (if toStr (related_collection r0) = f
                                        then Str (f @ ''_related_id'') else Str (f @ ''_id''))
               \<and> relation.field r0' \<noteq> relation.field r1'"
    using a rel name by (simp add: m2mFieldNameRule_def Let_def)
next
  assume eq: "strictEq (relation.field r0) (relation.field r1)"
  obtain name where name:
    "getAutomaticJunctionCollectionName cat (related_collection r0) (related_collection r1)
     = Some name"
    using junction_name_returns [OF fin] by blast
  show "\<exists>st' r0' r1'.
                 m2mAutoFillRule cat v st = Some (None, st')
               \<and> relations st' = r0' # r1' # rs
               \<and> relation.field r0' = relation.field r0
               \<and> relation.field r1' = Str (toStr (related_collection r1) @ ''_related_id'')"
    using eq rel name by (simp add: m2mAutoFillRule_def Let_def)
qed

theorem m2m_rename_on_equal_names_witness:
  "finite {n. collectionExists blogCatalog (Str n)}
   \<and> field.field (fieldData selfReferenceState) = Str ''articles''
   \<and> collectionExists blogCatalog (Str ''articles'')
   \<and> (\<exists>st. m2mFieldNameRule blogCatalog ''m2m'' selfReferenceState = Some (None, st)
          \<and> map relation.field (relations st) = [Str ''articles_id'', Str ''articles_related_id''])
   \<and> map relation.field (relations pickedTagsState) = [Str [], Str []]
   \<and> (\<exists>st. m2mAutoFillRule blogCatalog (Str ''tags'') pickedTagsState = Some (None, st)
          \<and> map relation.field (relations st) = [Str [], Str ''tags_related_id''])"
proof -
  define r0 where "r0 = hd (relations selfReferenceState)"
  define r1 where "r1 = hd (tl (relations selfReferenceState))"
  have rel: "relations selfReferenceState = r0 # r1 # []"
    by (simp add: r0_def r1_def selfReferenceState_def init_defs literal_defs)
  have related: "related_collection r0 = Str ''articles''"
    by (simp add: r0_def selfReferenceState_def init_defs literal_defs)
  have name: "field.field (fieldData selfReferenceState) = Str ''articles''"
    by (simp add: selfReferenceState_def init_defs literal_defs)
  have ex: "collectionExists blogCatalog (Str ''articles'')"
    by (simp add: blogCatalog_exists)
  from m2m_rename_on_equal_names
         [OF rel blogCatalog_finite, where f = "''articles''" and localType = "''m2m''" and v = Undefined]
    name ex related
  obtain st r0' r1' where
    "m2mFieldNameRule blogCatalog ''m2m'' selfReferenceState = Some (None, st)"
    "relations st = r0' # r1' # []"
    "relation.field r0' = Str ''articles_id''"
    "relation.field r1' = Str ''articles_related_id''"
    by auto
  then have first:
    "\<exists>st. m2mFieldNameRule blogCatalog ''m2m'' selfReferenceState = Some (None, st)
          \<and> map relation.field (relations st) = [Str ''articles_id'', Str ''articles_related_id'']"
    by simp
  define p0 where "p0 = hd (relations pickedTagsState)"
  define p1 where "p1 = hd (tl (relations pickedTagsState))"
  have prel: "relations pickedTagsState = p0 # p1 # []"
    by (simp add: p0_def p1_def pickedTagsState_def init_defs literal_defs)
  have pfields: "relation.field p0 = Str []" "relation.field p1 = Str []"
    "related_collection p1 = Str ''tags''"
    by (simp_all add: p0_def p1_def pickedTagsState_def init_defs literal_defs)
  then have eq: "strictEq (relation.field p0) (relation.field p1)" by simp
  from m2m_rename_on_equal_names
         [OF prel blogCatalog_finite, where f = "[]" and localType = "''m2m''" and v = "Str ''tags''"]
    eq pfields
  obtain st2 q0 q1 where
    "m2mAutoFillRule blogCatalog (Str ''tags'') pickedTagsState = Some (None, st2)"
    "relations st2 = q0 # q1 # []"
    "relation.field q0 = Str []"
    "relation.field q1 = Str ''tags_related_id''"
    by auto
  then have second:
    "\<exists>st. m2mAutoFillRule blogCatalog (Str ''tags'') pickedTagsState = Some (None, st)
          \<and> map relation.field (relations st) = [Str [], Str ''tags_related_id'']"
    by simp
  from blogCatalog_finite name ex first prel pfields second show ?thesis
    by simp
qed

text \<open>
  The two junction field names do coincide in reachable states. A new many-to-many session
  opens with both names empty; and when both names are \<open>tags_related_id\<close> and the related
  collection is \<open>tags\<close>, the auto-fill rule renames the second to the name it already has.
\<close>

theorem junction_field_names_can_coincide:
  "(\<exists>ses st. reachable blogCatalog ''articles'' ''m2m'' ses
        \<and> state ses = Some st
        \<and> map relation.field (relations st) = [Str [], Str []])
   \<and> (\<exists>st. m2mAutoFillRule blogCatalog (Str ''tags'') sameNamesState = Some (None, st)
           \<and> map relation.field (relations st) = [Str ''tags_related_id'', Str ''tags_related_id''])"
proof -
  define ses where "ses = snd (startSession blogCatalog ''articles'' ''+'' ''m2m'')"
  have "startSession blogCatalog ''articles'' ''+'' ''m2m''
        = (fst (startSession blogCatalog ''articles'' ''+'' ''m2m''), ses)"
    by (simp add: ses_def)
  then have reach: "reachable blogCatalog ''articles'' ''m2m'' ses"
    by (rule reachable.opened [rotated]) simp
  have "\<exists>st. state ses = Some st \<and> map relation.field (relations st) = [Str [], Str []]"
    by (simp add: ses_def startSession_def init_defs literal_defs split_beta)
  then obtain st where
    "state ses = Some st" "map relation.field (relations st) = [Str [], Str []]"
    by (elim exE conjE)
  with reach have
    "reachable blogCatalog ''articles'' ''m2m'' ses
        \<and> state ses = Some st
        \<and> map relation.field (relations st) = [Str [], Str []]"
    by (intro conjI)
  then have first:
    "\<exists>ses st. reachable blogCatalog ''articles'' ''m2m'' ses
        \<and> state ses = Some st
        \<and> map relation.field (relations st) = [Str [], Str []]"
    by (intro exI)
  have second:
    "\<exists>st. m2mAutoFillRule blogCatalog (Str ''tags'') sameNamesState = Some (None, st)
           \<and> map relation.field (relations st) = [Str ''tags_related_id'', Str ''tags_related_id'']"
    by (simp add: init_defs literal_defs sameNamesState_def m2mAutoFillRule_def
        blogCatalog_junction_name)
  from first second show ?thesis by (rule conjI)
qed

section \<open>The translations scaffold\<close>

lemmas sync_defs =
  syncNewCollectionsM2M_def syncNewCollectionsM2M_from420_def

text \<open>
  C2 (as the code has it). A new translations field on a collection whose primary key is in
  the catalog, when neither \<open>languages\<close> nor \<open><collection>_translations\<close> exists: after
  \<^verbatim>\<open>initLocalStore\<close> and the first flush of the watchers the proposals are the junction
  collection \<open><collection>_translations\<close> with the auto-increment integer field \<open>id\<close>, the
  collection \<open>languages\<close> with a string primary key \<open>id\<close> and a field \<open>name\<close>, the junction
  field \<open><collection>_<pk>\<close> of the parent's primary-key type, the junction field
  \<open>languages_id\<close> of type string, and for \<open>languages\<close> exactly the seven starter rows.
\<close>

theorem translations_scaffold:
  assumes "\<not> collectionExists cat (Str ''languages'')"
    and "\<not> collectionExists cat (Str (c @ ''_translations''))"
    and "getPrimaryKeyFieldForCollection cat c = Some pk"
  shows "\<exists>ses ses' st.
           startSession cat c ''+'' ''translations'' = (None, ses)
         \<and> flushNewTranslations cat c ses = Some (None, ses')
         \<and> state ses' = Some st
         \<and> newCollections st = [junctionDraft (Str (c @ ''_translations'')),
                                relatedDraftTranslations (Str ''languages'')]
         \<and> newFields st = [hiddenField ''manyCurrent'' (Str (c @ ''_translations''))
                              (Str (c @ ''_'' @ toStr (field.field pk))) (field.type pk),
                            hiddenField ''manyRelated'' (Str (c @ ''_translations''))
                              (Str ''languages_id'') (Str ''string'')]
         \<and> newRows st = [(''languages'', starterLanguages)]
         \<and> map (\<lambda>row. map_of row ''code'') starterLanguages
             = [Some ''en-US'', Some ''de-DE'', Some ''fr-FR'', Some ''ru-RU'',
                Some ''es-ES'', Some ''it-IT'', Some ''pt-BR'']"
  using assms
  by (simp add: session_defs init_defs literal_defs sync_defs fieldExists_def starterLanguages_def)

theorem translations_scaffold_witness:
  "\<not> collectionExists blogCatalog (Str ''languages'')
   \<and> \<not> collectionExists blogCatalog (Str ''articles_translations'')
   \<and> getPrimaryKeyFieldForCollection blogCatalog ''articles''
       = Some (storedField ''articles'' (''id'', ''integer''))
   \<and> (\<exists>ses ses' st.
         startSession blogCatalog ''articles'' ''+'' ''translations'' = (None, ses)
       \<and> flushNewTranslations blogCatalog ''articles'' ses = Some (None, ses')
       \<and> state ses' = Some st
       \<and> map collection.collection (newCollections st)
           = [Str ''articles_translations'', Str ''languages'']
       \<and> map (\<lambda>f. (field.field f, field.type f)) (newFields st)
           = [(Str ''articles_id'', Str ''integer''), (Str ''languages_id'', Str ''string'')]
       \<and> map fst (newRows st) = [''languages''])"
proof -
  have a1: "\<not> collectionExists blogCatalog (Str ''languages'')"
    and a2: "\<not> collectionExists blogCatalog (Str (''articles'' @ ''_translations''))"
    by (simp_all add: blogCatalog_exists)
  have a3: "getPrimaryKeyFieldForCollection blogCatalog ''articles''
            = Some (storedField ''articles'' (''id'', ''integer''))"
    by (simp add: blogCatalog_def catalogOfTables_def)
  from translations_scaffold [OF a1 a2 a3]
  obtain ses ses' st where
    "startSession blogCatalog ''articles'' ''+'' ''translations'' = (None, ses)"
    "flushNewTranslations blogCatalog ''articles'' ses = Some (None, ses')"
    "state ses' = Some st"
    "newCollections st = [junctionDraft (Str (''articles'' @ ''_translations'')),
                          relatedDraftTranslations (Str ''languages'')]"
    "newFields st = [hiddenField ''manyCurrent'' (Str (''articles'' @ ''_translations''))
                       (Str (''articles'' @ ''_''
                             @ toStr (field.field (storedField ''articles'' (''id'', ''integer''))))) 
                       (field.type (storedField ''articles'' (''id'', ''integer''))),
                     hiddenField ''manyRelated'' (Str (''articles'' @ ''_translations''))
                       (Str ''languages_id'') (Str ''string'')]"
    "newRows st = [(''languages'', starterLanguages)]"
    by blast
  then show ?thesis
    using a1 a2 a3
    by (simp add: junctionDraft_def relatedDraftTranslations_def hiddenField_def storedField_def)
qed

text \<open>
  With \<open>languages\<close> missing but \<open>articles_translations\<close> already in the catalog, no junction
  collection is proposed: the only new collection is \<open>languages\<close>.
\<close>

theorem translations_scaffold_without_junction:
  "\<not> collectionExists articlesCatalog (Str ''languages'')
   \<and> (\<exists>ses ses' st.
         startSession articlesCatalog ''articles'' ''+'' ''translations'' = (None, ses)
       \<and> flushNewTranslations articlesCatalog ''articles'' ses = Some (None, ses')
       \<and> state ses' = Some st
       \<and> map collection.collection (newCollections st) = [Str ''languages''])"
  by (simp add: articlesCatalog_def session_defs init_defs literal_defs sync_defs catalog_defs
      relatedDraftTranslations_def)

section \<open>Loading an existing field\<close>

text \<open>
  For every category but translations, an existing field is loaded as stored: when
  \<^verbatim>\<open>initLocalStore\<close> returns, the relation records are those of the catalog, nothing is
  proposed, and auto-fill is off. (For the category \<open>files\<close> the callback handed to
  \<^verbatim>\<open>Vue.nextTick\<close> then writes \<open>directus_files\<close> into \<^verbatim>\<open>relations[1].related_collection\<close>,
  the collection a files field is stored with.)
\<close>

lemma existing_field_loaded_unchanged:
  assumes "fieldKey \<noteq> ''+''"
    and "getField cat c fieldKey = Some existingField"
    and "localType \<noteq> ''translations''"
    and "localType = ''presentation'' \<longrightarrow> field.meta existingField \<noteq> None"
  shows "\<exists>st. initLocalStore cat c fieldKey localType = (None, st)
           \<and> relations st = getRelationsForField cat c fieldKey
           \<and> newCollections st = [] \<and> newFields st = [] \<and> newRows st = []
           \<and> autoFillJunctionRelation st = False
           \<and> field.field (fieldData st) = field.field existingField"
  using assms
  by (auto simp: init_defs initialState_def split: option.splits)

text \<open>
  C4, at an existing translations field. \<open>articles.i18n\<close> is stored with the junction
  \<open>articles_i18n\<close> and the languages collection \<open>locales\<close>. \<^verbatim>\<open>initLocalStore\<close> loads the two
  relation records and then overwrites them with the defaults of a new translations field,
  and renames the field draft to \<open>translations\<close>.
\<close>

theorem existing_translations_field_overwritten:
  "getField i18nCatalog ''articles'' ''i18n'' = Some (storedField ''articles'' (''i18n'', ''alias''))
   \<and> getRelationsForField i18nCatalog ''articles'' ''i18n'' = storedTranslationRelations
   \<and> (\<exists>st. initLocalStore i18nCatalog ''articles'' ''i18n'' ''translations'' = (None, st)
          \<and> relations st \<noteq> storedTranslationRelations
          \<and> map relation.collection (relations st)
              = [Str ''articles_translations'', Str ''articles_i18n'']
          \<and> map relation.field (relations st) = [Str ''articles_id'', Str ''languages_id'']
          \<and> map related_collection (relations st) = [Str ''articles'', Str ''languages'']
          \<and> field.field (fieldData st) = Str ''translations'')"
  by (simp add: i18nCatalog_def storedTranslationRelations_def init_defs literal_defs catalog_defs)

section \<open>The auto-fill gate\<close>

lemma syncWatcher_frame:
  assumes "state ses = Some st"
  shows "\<exists>e ses' st'. syncWatcherM2M cat pc lt ses = (e, ses') \<and> state ses' = Some st'
           \<and> relations st' = relations st \<and> autoFillWatcher ses' = autoFillWatcher ses
           \<and> autoFillJunctionRelation st' = autoFillJunctionRelation st"
proof (cases "syncSourcesM2M st")
  case None
  with assms show ?thesis by (simp add: syncWatcherM2M_def)
next
  case (Some args)
  show ?thesis
  proof (cases "timerId ses")
    case True
    with assms Some show ?thesis
      by (simp add: syncWatcherM2M_def throttledSyncM2M_def)
  next
    case False
    obtain e st' where run: "syncNewCollectionsM2M cat pc lt args st = (e, st')"
      by (cases "syncNewCollectionsM2M cat pc lt args st")
    from m2m_sync_frame [of cat pc lt args st] run
    have "relations st' = relations st"
      and "autoFillJunctionRelation st' = autoFillJunctionRelation st" by simp_all
    with assms Some False run show ?thesis
      by (simp add: syncWatcherM2M_def throttledSyncM2M_def invokeSyncM2M_def onState_def)
  qed
qed

text \<open>A new many-to-many or files session starts with the inner watcher registered exactly
  if auto-fill is on.\<close>

lemma startSession_registered:
  assumes "localType = ''m2m'' \<or> localType = ''files''"
  shows "\<exists>ses st. startSession cat c fieldKey localType = (fst (startSession cat c fieldKey localType), ses)
           \<and> state ses = Some st
           \<and> autoFillWatcher ses = autoFillJunctionRelation st"
  using assms by (auto simp: startSession_def split: prod.splits)

text \<open>
  C7. In an open many-to-many session (two relation records, category not translations, the
  inner watcher registered exactly if auto-fill is on): once the user has switched auto-fill
  off, the inner watcher is gone, and a change of \<^verbatim>\<open>relations[1].related_collection\<close> leaves
  \<^verbatim>\<open>relations[0]\<close> as it was and \<^verbatim>\<open>relations[1].collection\<close> and \<^verbatim>\<open>relations[1].field\<close> as they
  were. Switching auto-fill to any value leaves the inner watcher registered exactly if that
  value is true.
\<close>

theorem autofill_off_keeps_junction_names:
  assumes open_session: "state ses = Some st"
    and two: "relations st = r0 # r1 # rs"
    and category: "localType \<noteq> ''translations''"
    and registered: "autoFillWatcher ses = autoFillJunctionRelation st"
  shows "(\<exists>ses1. userSetsAutoFill localType False ses = (None, ses1)
            \<and> autoFillWatcher ses1 = False
            \<and> (\<exists>e ses2 st2 r1'.
                  userSetsRelatedCollection cat pc localType v ses1 = Some (e, ses2)
                \<and> state ses2 = Some st2
                \<and> relations st2 = r0 # r1' # rs
                \<and> relation.collection r1' = relation.collection r1
                \<and> relation.field r1' = relation.field r1
                \<and> autoFillWatcher ses2 = False))
       \<and> (\<exists>ses1 st1. userSetsAutoFill localType b ses = (None, ses1)
            \<and> state ses1 = Some st1
            \<and> autoFillJunctionRelation st1 = b
            \<and> autoFillWatcher ses1 = b)"
proof (intro conjI)
  define ses1 where "ses1 = snd (userSetsAutoFill localType False ses)"
  define st1 where "st1 = st\<lparr>autoFillJunctionRelation := False\<rparr>"
  have off: "userSetsAutoFill localType False ses = (None, ses1)"
    and w1: "autoFillWatcher ses1 = False"
    and s1: "state ses1 = Some st1"
    using open_session category registered
    by (auto simp: ses1_def st1_def userSetsAutoFill_def)
  have rel1: "relations st1 = r0 # r1 # rs"
    using two by (simp add: st1_def)
  have "\<exists>e ses2 st2 r1'.
          userSetsRelatedCollection cat pc localType v ses1 = Some (e, ses2)
        \<and> state ses2 = Some st2
        \<and> relations st2 = r0 # r1' # rs
        \<and> relation.collection r1' = relation.collection r1
        \<and> relation.field r1' = relation.field r1
        \<and> autoFillWatcher ses2 = False"
  proof (cases "related_collection r1 = v")
    case True
    with s1 rel1 w1 show ?thesis
      by (simp add: userSetsRelatedCollection_def)
  next
    case False
    define sesA where
      "sesA = ses1\<lparr>state := Some (st1\<lparr>relations := r0 # r1\<lparr>related_collection := v\<rparr> # rs\<rparr>)\<rparr>"
    have "state sesA = Some (st1\<lparr>relations := r0 # r1\<lparr>related_collection := v\<rparr> # rs\<rparr>)"
      by (simp add: sesA_def)
    from syncWatcher_frame [OF this, of cat pc localType]
    obtain e ses2 st2 where
      "syncWatcherM2M cat pc localType sesA = (e, ses2)" "state ses2 = Some st2"
      "relations st2 = r0 # r1\<lparr>related_collection := v\<rparr> # rs"
      "autoFillWatcher ses2 = autoFillWatcher sesA"
      by auto
    with False s1 rel1 w1 show ?thesis
      by (simp add: userSetsRelatedCollection_def sesA_def)
  qed
  with off w1 show "\<exists>ses1. userSetsAutoFill localType False ses = (None, ses1)
            \<and> autoFillWatcher ses1 = False
            \<and> (\<exists>e ses2 st2 r1'.
                  userSetsRelatedCollection cat pc localType v ses1 = Some (e, ses2)
                \<and> state ses2 = Some st2
                \<and> relations st2 = r0 # r1' # rs
                \<and> relation.collection r1' = relation.collection r1
                \<and> relation.field r1' = relation.field r1
                \<and> autoFillWatcher ses2 = False)"
    by blast
next
  show "\<exists>ses1 st1. userSetsAutoFill localType b ses = (None, ses1)
            \<and> state ses1 = Some st1
            \<and> autoFillJunctionRelation st1 = b
            \<and> autoFillWatcher ses1 = b"
    using open_session category registered
    by (auto simp: userSetsAutoFill_def)
qed

lemmas event_defs =
  userSetsJunctionCollection_def userSetsRelatedCollection_def userSetsAutoFill_def
  autoFillWatcherFires_def m2mAutoFillRule_def timerExpired_def clearLocalStore_def

lemma namedJunctionSession_eval:
  "\<exists>st r0 r1. state namedJunctionSession = Some st \<and> relations st = r0 # r1 # []
     \<and> relation.collection r0 = Str ''my_links'' \<and> relation.collection r1 = Str []
     \<and> autoFillJunctionRelation st \<and> autoFillWatcher namedJunctionSession
     \<and> timerId namedJunctionSession"
  by (simp add: namedJunctionSession_def event_defs session_defs init_defs literal_defs
      m2m_sync_frame split_beta)

theorem autofill_off_keeps_junction_names_witness:
  "(\<exists>st r0 r1. state namedJunctionSession = Some st \<and> relations st = [r0, r1]
       \<and> relation.collection r0 = Str ''my_links''
       \<and> autoFillWatcher namedJunctionSession = autoFillJunctionRelation st)
   \<and> (\<exists>ses1 e ses2 st2.
         userSetsAutoFill ''m2m'' False namedJunctionSession = (None, ses1)
       \<and> userSetsRelatedCollection blogCatalog ''articles'' ''m2m'' (Str ''tags'') ses1
           = Some (e, ses2)
       \<and> state ses2 = Some st2
       \<and> map relation.collection (relations st2) = [Str ''my_links'', Str []])"
proof -
  from namedJunctionSession_eval obtain st r0 r1 where
    s: "state namedJunctionSession = Some st" and r: "relations st = r0 # r1 # []"
    and c0: "relation.collection r0 = Str ''my_links''" and c1: "relation.collection r1 = Str []"
    and reg: "autoFillWatcher namedJunctionSession = autoFillJunctionRelation st"
    by auto
  have cat: "''m2m'' \<noteq> ''translations''" by simp
  from autofill_off_keeps_junction_names
         [OF s r cat reg, where cat = blogCatalog and pc = "''articles''" and v = "Str ''tags''"
          and b = False]
  obtain ses1 e ses2 st2 r1' where
    "userSetsAutoFill ''m2m'' False namedJunctionSession = (None, ses1)"
    "userSetsRelatedCollection blogCatalog ''articles'' ''m2m'' (Str ''tags'') ses1 = Some (e, ses2)"
    "state ses2 = Some st2" "relations st2 = r0 # r1' # []"
    "relation.collection r1' = relation.collection r1"
    by blast
  with s r c0 c1 reg show ?thesis by simp
qed

text \<open>With auto-fill still on, the same change does rename both junction collections.\<close>

lemma autofill_on_renames_junction:
  "\<exists>e ses st. userSetsRelatedCollection blogCatalog ''articles'' ''m2m'' (Str ''tags'')
                 namedJunctionSession = Some (e, ses)
     \<and> state ses = Some st
     \<and> map relation.collection (relations st) = [Str ''articles_tags'', Str ''articles_tags'']"
  by (simp add: namedJunctionSession_def event_defs session_defs init_defs literal_defs
      blogCatalog_junction_name m2m_sync_frame split_beta)

text \<open>
  The rule on the field name is not behind the toggle: with auto-fill off it still renames
  the junction collection and the related collection of a field named after a collection.
\<close>

lemma field_name_rule_not_gated:
  "\<exists>st. m2mFieldNameRule blogCatalog ''m2m''
           (selfReferenceState\<lparr>autoFillJunctionRelation := False\<rparr>) = Some (None, st)
     \<and> autoFillJunctionRelation st = False
     \<and> map relation.collection (relations st) = [Str ''articles_'', Str ''articles_articles'']
     \<and> map related_collection (relations st) = [Str ''articles'', Str ''articles'']"
proof -
  have name: "getAutomaticJunctionCollectionName blogCatalog (Str ''articles'') (Str [])
              = Some ''articles_''"
    unfolding getAutomaticJunctionCollectionName_def
    by (subst junctionNameLoop.simps) (simp add: getName_def blogCatalog_exists)
  show ?thesis
    by (simp add: selfReferenceState_def m2mFieldNameRule_def init_defs literal_defs name
        blogCatalog_exists)
qed

lemma junctionFieldRule1_frame:
  "autoFillJunctionRelation (snd (junctionFieldRule1 st)) = autoFillJunctionRelation st
   \<and> map relation.collection (relations (snd (junctionFieldRule1 st))) = map relation.collection (relations st)
   \<and> map relation.field (relations (snd (junctionFieldRule1 st))) = map relation.field (relations st)
   \<and> map related_collection (relations (snd (junctionFieldRule1 st))) = map related_collection (relations st)"
  by (simp add: junctionFieldRule1_def split: list.splits)

lemma m2mAutoFillRule_frame:
  assumes "m2mAutoFillRule cat v st = Some (e, st')"
  shows "autoFillJunctionRelation st' = autoFillJunctionRelation st"
  using assms
  by (auto simp: m2mAutoFillRule_def Let_def split: list.splits option.splits if_splits)

lemma onState_junctionFieldRule1:
  assumes "state ses = Some st"
  shows "\<exists>e ses' st'. onState junctionFieldRule1 ses = (e, ses') \<and> state ses' = Some st'
           \<and> autoFillWatcher ses' = autoFillWatcher ses
           \<and> autoFillJunctionRelation st' = autoFillJunctionRelation st"
  using assms junctionFieldRule1_frame [of st]
  by (simp add: onState_def split_beta)

text \<open>A change of the related collection never moves the gate: neither the toggle nor the
  registration of the inner watcher.\<close>

lemma userSetsRelatedCollection_keeps_gate:
  assumes open_session: "state ses = Some st"
    and run: "userSetsRelatedCollection cat pc lt v ses = Some (e, ses')"
  shows "autoFillWatcher ses' = autoFillWatcher ses
         \<and> (\<exists>st'. state ses' = Some st' \<and> autoFillJunctionRelation st' = autoFillJunctionRelation st)"
proof -
  define good where
    "good = (\<lambda>r :: error option \<times> session. \<exists>e' s' x'. r = (e', s') \<and> state s' = Some x'
                    \<and> autoFillWatcher s' = autoFillWatcher ses
                    \<and> autoFillJunctionRelation x' = autoFillJunctionRelation st)"
  have sync_good: "good (syncWatcherM2M cat pc lt s)"
    if "state s = Some x" "autoFillWatcher s = autoFillWatcher ses"
       "autoFillJunctionRelation x = autoFillJunctionRelation st" for s x
    using syncWatcher_frame [OF that(1), of cat pc lt] that(2,3)
    unfolding good_def by auto
  have jf_good: "good (onState junctionFieldRule1 s)"
    if "state s = Some x" "autoFillWatcher s = autoFillWatcher ses"
       "autoFillJunctionRelation x = autoFillJunctionRelation st" for s x
    using onState_junctionFieldRule1 [OF that(1)] that(2,3)
    unfolding good_def by auto
  have then_good: "good (thenRun r cb)"
    if "good r"
       "\<And>s x. state s = Some x \<Longrightarrow> autoFillWatcher s = autoFillWatcher ses
               \<Longrightarrow> autoFillJunctionRelation x = autoFillJunctionRelation st \<Longrightarrow> good (cb s)"
    for r cb
  proof -
    from that(1) obtain e1 s1 x1 where r: "r = (e1, s1)" "state s1 = Some x1"
      "autoFillWatcher s1 = autoFillWatcher ses"
      "autoFillJunctionRelation x1 = autoFillJunctionRelation st"
      unfolding good_def by blast
    from that(2) [OF r(2,3,4)] obtain e2 s2 x2 where
      "cb s1 = (e2, s2)" "state s2 = Some x2" "autoFillWatcher s2 = autoFillWatcher ses"
      "autoFillJunctionRelation x2 = autoFillJunctionRelation st"
      unfolding good_def by blast
    with r(1) show ?thesis
      unfolding good_def by (simp add: thenRun_def)
  qed
  have "good (e, ses')"
  proof (cases "relations st")
    case Nil
    with open_session run show ?thesis
      by (auto simp: userSetsRelatedCollection_def good_def)
  next
    case (Cons r0 rest)
    show ?thesis
    proof (cases rest)
      case Nil
      with Cons open_session run show ?thesis
        by (auto simp: userSetsRelatedCollection_def good_def)
    next
      case (Cons r1 rs)
      note two = \<open>relations st = r0 # rest\<close> Cons
      show ?thesis
      proof (cases "related_collection r1 = v")
        case True
        with two open_session run show ?thesis
          by (auto simp: userSetsRelatedCollection_def good_def)
      next
        case False
        define st1 where "st1 = st\<lparr>relations := r0 # r1\<lparr>related_collection := v\<rparr> # rs\<rparr>"
        define ses1 where "ses1 = ses\<lparr>state := Some st1\<rparr>"
        have s1: "state ses1 = Some st1" "autoFillWatcher ses1 = autoFillWatcher ses"
          "autoFillJunctionRelation st1 = autoFillJunctionRelation st"
          by (simp_all add: ses1_def st1_def)
        have g1: "good (syncWatcherM2M cat pc lt ses1)"
          by (rule sync_good [OF s1])
        show ?thesis
        proof (cases "autoFillWatcher ses")
          case False
          with \<open>related_collection r1 \<noteq> v\<close> two open_session run
          have "(e, ses') = syncWatcherM2M cat pc lt ses1"
            by (simp add: userSetsRelatedCollection_def ses1_def st1_def)
          with g1 show ?thesis by simp
        next
          case True
          with \<open>related_collection r1 \<noteq> v\<close> two open_session run
          have fires: "autoFillWatcherFires cat pc lt v (syncWatcherM2M cat pc lt ses1) = Some (e, ses')"
            by (simp add: userSetsRelatedCollection_def ses1_def st1_def)
          from g1 obtain e2 s2 x2 where r2: "syncWatcherM2M cat pc lt ses1 = (e2, s2)"
            "state s2 = Some x2" "autoFillWatcher s2 = autoFillWatcher ses"
            "autoFillJunctionRelation x2 = autoFillJunctionRelation st"
            unfolding good_def by blast
          from fires r2 obtain e3 x3 where rule: "m2mAutoFillRule cat v x2 = Some (e3, x3)"
            by (auto simp: autoFillWatcherFires_def split: option.splits)
          from m2mAutoFillRule_frame [OF rule] r2(4)
          have a3: "autoFillJunctionRelation x3 = autoFillJunctionRelation st" by simp
          define ra where "ra = (keepFirst e2 e3, s2\<lparr>state := Some x3\<rparr>)"
          have ga: "good ra"
            unfolding good_def ra_def using r2(3) a3 by simp
          define rb where
            "rb = (if map relation.field (relations x3) \<noteq> map relation.field (relations x2)
                   then thenRun ra (onState junctionFieldRule1) else ra)"
          have gb: "good rb"
            unfolding rb_def using ga jf_good by (auto intro: then_good)
          define rc where
            "rc = (if syncSourcesM2M x3 \<noteq> syncSourcesM2M x2
                   then thenRun rb (syncWatcherM2M cat pc lt) else rb)"
          have gc: "good rc"
            unfolding rc_def using gb sync_good by (auto intro: then_good)
          from fires r2 rule have "(e, ses') = rc"
            unfolding rc_def rb_def ra_def
            by (auto simp: autoFillWatcherFires_def Let_def)
          with gc show ?thesis by simp
        qed
      qed
    qed
  qed
  then show ?thesis
    unfolding good_def by auto
qed

text \<open>
  The registration of the inner watcher follows the toggle in every reachable session.
\<close>

lemma invoke_frame:
  assumes "state ses = Some st"
  shows "\<exists>e ses' st'. invokeSyncM2M cat pc lt args ses = (e, ses') \<and> state ses' = Some st'
           \<and> relations st' = relations st \<and> autoFillWatcher ses' = autoFillWatcher ses
           \<and> autoFillJunctionRelation st' = autoFillJunctionRelation st"
  using assms m2m_sync_frame [of cat pc lt args st]
  by (simp add: invokeSyncM2M_def onState_def split_beta)

lemma reachable_category:
  assumes "reachable cat pc lt ses"
  shows "lt = ''m2m'' \<or> lt = ''files''"
  using assms by (induction rule: reachable.induct) simp_all

lemma reachable_registered:
  assumes "reachable cat pc lt ses"
  shows "\<exists>st. state ses = Some st \<and> autoFillWatcher ses = autoFillJunctionRelation st"
  using assms
proof (induction rule: reachable.induct)
  case (opened fieldKey e ses)
  then show ?case
    by (auto simp: startSession_def split: prod.splits)
next
  case (toggled ses b e ses')
  from reachable_category [OF toggled.hyps(1)] have "lt \<noteq> ''translations''" by auto
  with toggled show ?case
    by (auto simp: userSetsAutoFill_def Let_def split: if_splits)
next
  case (related_changed ses v e ses')
  then obtain st where "state ses = Some st" "autoFillWatcher ses = autoFillJunctionRelation st"
    by blast
  with userSetsRelatedCollection_keeps_gate [OF this(1) related_changed.hyps(2)]
  show ?case by auto
next
  case (junction_changed ses v e ses')
  then obtain st where st: "state ses = Some st" "autoFillWatcher ses = autoFillJunctionRelation st"
    by blast
  show ?case
  proof (cases "relations st")
    case Nil
    with st junction_changed.hyps(2) show ?thesis
      by (auto simp: userSetsJunctionCollection_def)
  next
    case (Cons r0 rs)
    show ?thesis
    proof (cases "relation.collection r0 = v")
      case True
      with Cons st junction_changed.hyps(2) show ?thesis
        by (auto simp: userSetsJunctionCollection_def)
    next
      case False
      define ses1 where "ses1 = ses\<lparr>state := Some (st\<lparr>relations := r0\<lparr>relation.collection := v\<rparr> # rs\<rparr>)\<rparr>"
      have "state ses1 = Some (st\<lparr>relations := r0\<lparr>relation.collection := v\<rparr> # rs\<rparr>)"
        by (simp add: ses1_def)
      from syncWatcher_frame [OF this, of cat pc lt]
      obtain e2 s2 x2 where "syncWatcherM2M cat pc lt ses1 = (e2, s2)" "state s2 = Some x2"
        "autoFillWatcher s2 = autoFillWatcher ses1"
        "autoFillJunctionRelation x2 = autoFillJunctionRelation st"
        by auto
      with False Cons st junction_changed.hyps(2) show ?thesis
        by (auto simp: userSetsJunctionCollection_def ses1_def)
    qed
  qed
next
  case (timer_expired ses e ses')
  then obtain st where st: "state ses = Some st" "autoFillWatcher ses = autoFillJunctionRelation st"
    by blast
  show ?case
  proof (cases "lastArgs ses")
    case None
    with st timer_expired.hyps(2) show ?thesis
      by (auto simp: timerExpired_def)
  next
    case (Some args)
    have "state (ses\<lparr>timerId := False, lastArgs := None\<rparr>) = Some st"
      using st by simp
    from invoke_frame [OF this, of cat pc lt args]
    obtain e2 s2 x2 where
      "invokeSyncM2M cat pc lt args (ses\<lparr>timerId := False, lastArgs := None\<rparr>) = (e2, s2)"
      "state s2 = Some x2" "autoFillWatcher s2 = autoFillWatcher ses"
      "autoFillJunctionRelation x2 = autoFillJunctionRelation st"
      by auto
    with Some st timer_expired.hyps(2) show ?thesis
      by (auto simp: timerExpired_def)
  qed
qed

section \<open>Teardown\<close>

text \<open>
  C8 (as the code has it). \<^verbatim>\<open>clearLocalStore\<close> sets the state to \<^verbatim>\<open>null\<close> and touches nothing
  else: the throttle timer, the call recorded for its trailing edge and the inner watcher
  stay as they were. A recorded call is still invoked when the timer expires, on the
  \<^verbatim>\<open>null\<close> state, where the first access of the rule throws.
\<close>

theorem teardown_cancels_nothing:
  "state (clearLocalStore ses) = None
   \<and> lastArgs (clearLocalStore ses) = lastArgs ses
   \<and> timerId (clearLocalStore ses) = timerId ses
   \<and> autoFillWatcher (clearLocalStore ses) = autoFillWatcher ses
   \<and> (lastArgs ses = Some args \<longrightarrow>
        timerExpired cat pc lt (clearLocalStore ses)
        = (Some TypeError, (clearLocalStore ses)\<lparr>timerId := False, lastArgs := None\<rparr>))"
  by (simp add: clearLocalStore_def timerExpired_def invokeSyncM2M_def onState_def)

lemma typingSession_eval:
  "lastArgs typingSession = Some (Str ''li'', Str [], Str [], Str [], Null)
   \<and> timerId typingSession \<and> state typingSession \<noteq> None"
  by (simp add: typingSession_def event_defs session_defs init_defs literal_defs
      m2m_sync_frame split_beta)

theorem teardown_cancels_nothing_witness:
  "lastArgs typingSession = Some (Str ''li'', Str [], Str [], Str [], Null)
   \<and> lastArgs (clearLocalStore typingSession) = Some (Str ''li'', Str [], Str [], Str [], Null)
   \<and> timerId (clearLocalStore typingSession)
   \<and> fst (timerExpired blogCatalog ''articles'' ''m2m'' (clearLocalStore typingSession))
       = Some TypeError"
proof -
  have pending: "lastArgs typingSession = Some (Str ''li'', Str [], Str [], Str [], Null)"
    and timer: "timerId typingSession"
    using typingSession_eval by simp_all
  from teardown_cancels_nothing
         [of typingSession "(Str ''li'', Str [], Str [], Str [], Null)" blogCatalog "''articles''" "''m2m''"]
    pending timer
  show ?thesis by simp
qed

text \<open>
  The rule scheduled before teardown does run after it. In the session where the user typed
  \<open>l\<close> and \<open>li\<close> within one throttle window, the call for \<open>li\<close> is pending at teardown; when
  the timer expires it is invoked and faults on the \<^verbatim>\<open>null\<close> state; and if \<^verbatim>\<open>initLocalStore\<close>
  has meanwhile assigned the state of a new session (here a new field on \<open>tags\<close>), the stale
  call writes its proposals for \<open>li\<close> into that session.
\<close>

theorem stale_rule_runs_after_teardown:
  "state typingSession \<noteq> None
   \<and> lastArgs (clearLocalStore typingSession) = Some (Str ''li'', Str [], Str [], Str [], Null)
   \<and> fst (timerExpired blogCatalog ''articles'' ''m2m'' (clearLocalStore typingSession))
       = Some TypeError
   \<and> (\<exists>e ses st.
         timerExpired blogCatalog ''articles'' ''m2m''
           ((clearLocalStore typingSession)
              \<lparr>state := Some (snd (initLocalStore blogCatalog ''tags'' ''+'' ''m2m''))\<rparr>)
         = (e, ses)
       \<and> state ses = Some st
       \<and> newCollections (snd (initLocalStore blogCatalog ''tags'' ''+'' ''m2m'')) = []
       \<and> map collection.collection (newCollections st) = [Str ''li'', Str []])"
proof -
  have pending: "lastArgs typingSession = Some (Str ''li'', Str [], Str [], Str [], Null)"
    and alive: "state typingSession \<noteq> None"
    using typingSession_eval by simp_all
  have fresh: "newCollections (snd (initLocalStore blogCatalog ''tags'' ''+'' ''m2m'')) = []"
    by (simp add: init_defs literal_defs)
  have pk: "getPrimaryKeyFieldForCollection blogCatalog ''articles''
            = Some (storedField ''articles'' (''id'', ''integer''))"
    by (simp add: blogCatalog_def catalogOfTables_def)
  have "map collection.collection
          (newCollections (snd (syncNewCollectionsM2M blogCatalog ''articles'' ''m2m''
             (Str ''li'', Str [], Str [], Str [], Null)
             (snd (initLocalStore blogCatalog ''tags'' ''+'' ''m2m'')))))
        = [Str ''li'', Str []]"
    by (simp add: m2m_newCollections fresh blogCatalog_exists fieldExists_def pk
        junctionDraft_def relatedDraftM2M_def)
  with pending alive fresh show ?thesis
    by (simp add: clearLocalStore_def timerExpired_def invokeSyncM2M_def onState_def split_beta)
qed

end
